theory Spec2Isabelle
  imports Main
begin

section \<open>Values of the store interface\<close>

text \<open>
  Row identifiers are the strings that \<^verbatim>\<open>uuid()\<close> produces. Time stamps are instants of a
  clock, ordered as the store orders the column \<^verbatim>\<open>created_at\<close>.
\<close>

type_synonym ident = string

text \<open>
  The fields of a store error and of a count row are JavaScript values: absent, a number or
  a string. Numbers are the integers a store driver reports (error numbers, row counts).
\<close>

datatype jsval = Undefined | Num int | Str string

record db_error =
  err_errno :: jsval
  err_code :: jsval

datatype engine = Sqlite | Postgres

text \<open>
  What a request can fail with: \<^verbatim>\<open>ctx.assert(x, 404)\<close>, the validation error of status 422
  (messages and path), an error object of the store thrown on, a failure of a schema, and
  the \<^verbatim>\<open>TypeError\<close> of reading a property of \<^verbatim>\<open>undefined\<close> or \<^verbatim>\<open>null\<close>.
\<close>

datatype failure =
    HttpError nat
  | ValidationError nat "string list" string
  | StoreError db_error
  | SchemaError "string list"
  | TypeError

subsection \<open>\<^verbatim>\<open>parseInt(x, 10)\<close>\<close>

text \<open>The white space of the ASCII range; the other white space of the language is left out.\<close>

definition is_space :: "char \<Rightarrow> bool" where
  "is_space c = (c \<in> set [CHR '' '', CHR 0x09, CHR 0x0A, CHR 0x0B, CHR 0x0C, CHR 0x0D])"

definition digit_val :: "char \<Rightarrow> nat option" where
  "digit_val c =
     (let n = (of_char c :: nat) in if 48 \<le> n \<and> n \<le> 57 then Some (n - 48) else None)"

fun parse_digits :: "nat option \<Rightarrow> string \<Rightarrow> nat option" where
  "parse_digits acc [] = acc"
| "parse_digits acc (c # cs) =
     (case digit_val c of
        None \<Rightarrow> acc
      | Some d \<Rightarrow> parse_digits (Some (10 * (case acc of None \<Rightarrow> 0 | Some a \<Rightarrow> a) + d)) cs)"

text \<open>
  \<^verbatim>\<open>parseInt\<close> turns its argument into a string, skips leading white space, reads a sign
  and then decimal digits up to the first other character; with no digit the result is
  \<^verbatim>\<open>NaN\<close>, here \<open>None\<close>. \<^verbatim>\<open>undefined\<close> reads as the string "undefined", which has no
  digit; an integer below \<open>10\<^sup>2\<^sup>1\<close> in magnitude reads as itself.
\<close>

definition parseInt_str :: "string \<Rightarrow> int option" where
  "parseInt_str s =
     (case dropWhile is_space s of
        [] \<Rightarrow> None
      | c # cs \<Rightarrow>
          if c = CHR ''-'' then map_option (\<lambda>n. - int n) (parse_digits None cs)
          else if c = CHR ''+'' then map_option int (parse_digits None cs)
          else map_option int (parse_digits None (c # cs)))"

fun parseInt :: "jsval \<Rightarrow> int option" where
  "parseInt Undefined = None"
| "parseInt (Num n) = Some n"
| "parseInt (Str s) = parseInt_str s"

text \<open>
  The test both handlers of a failed insert or update make:
  \<^verbatim>\<open>parseInt(err.errno, 10) === 19 || parseInt(err.code, 10) === 23505\<close>.
\<close>

definition unique_violation :: "db_error \<Rightarrow> bool" where
  "unique_violation err =
     (parseInt (err_errno err) = Some 19 \<or> parseInt (err_code err) = Some 23505)"

section \<open>The relational store\<close>

record user_row =
  u_id :: ident
  u_username :: string
  u_bio :: string
  u_image :: string

record article_row =
  a_id :: ident
  a_slug :: string
  a_title :: string
  a_body :: string
  a_description :: string
  a_author :: ident
  a_favorites_count :: int
  a_created_at :: nat
  a_updated_at :: nat

record tag_row =
  t_id :: ident
  t_name :: string

record article_tag_row =
  at_id :: ident
  at_article :: ident
  at_tag :: ident

record favorite_row =
  fv_id :: ident
  fv_user :: ident
  fv_article :: ident

record follower_row =
  fl_id :: ident
  fl_user :: ident
  fl_follower :: ident

text \<open>The five columns an update of an article writes.\<close>

record article_update =
  up_title :: string
  up_slug :: string
  up_body :: string
  up_description :: string
  up_updated_at :: nat

text \<open>The write statements the controller issues, one constructor for each shape.\<close>

datatype stmt =
    InsertArticle article_row
  | UpdateArticle ident article_update
  | DeleteArticle ident
  | InsertTag tag_row
  | InsertArticleTags "article_tag_row list"
  | DeleteArticleTags ident
  | InsertFavorite favorite_row
  | DeleteFavorites ident ident
  | IncrementFavorites ident
  | DecrementFavorites ident

text \<open>
  The state a request runs in: the six tables, the write statements issued so far, and
  the number of identifiers \<^verbatim>\<open>uuid()\<close> has handed out.
\<close>

record world =
  articles :: "article_row list"
  users :: "user_row list"
  tags :: "tag_row list"
  articles_tags :: "article_tag_row list"
  favorites :: "favorite_row list"
  followers :: "follower_row list"
  issued :: "stmt list"
  uuid_count :: nat

text \<open>
  Modelled from the spec: the store is an external collaborator with unique constraints on
  \<^verbatim>\<open>article.slug\<close> and \<^verbatim>\<open>tag.name\<close>, whose violation signal is the number 19 for one engine
  family and 23505 for the other.
\<close>

definition violation :: "engine \<Rightarrow> db_error" where
  "violation g =
     (case g of
        Sqlite \<Rightarrow> \<lparr>err_errno = Num 19, err_code = Str ''SQLITE_CONSTRAINT''\<rparr>
      | Postgres \<Rightarrow> \<lparr>err_errno = Undefined, err_code = Str ''23505''\<rparr>)"

definition write_article :: "article_update \<Rightarrow> article_row \<Rightarrow> article_row" where
  "write_article up r =
     r\<lparr>a_title := up_title up, a_slug := up_slug up, a_body := up_body up,
       a_description := up_description up, a_updated_at := up_updated_at up\<rparr>"

text \<open>What each write statement does to the tables when the store accepts it.\<close>

fun apply_stmt :: "engine \<Rightarrow> stmt \<Rightarrow> world \<Rightarrow> db_error + world" where
  "apply_stmt g (InsertArticle r) w =
     (if a_slug r \<in> set (map a_slug (articles w)) then Inl (violation g)
      else Inr (w\<lparr>articles := articles w @ [r]\<rparr>))"
| "apply_stmt g (UpdateArticle i up) w =
     (if i \<in> set (map a_id (articles w)) \<and>
         up_slug up \<in> set (map a_slug (filter (\<lambda>r. a_id r \<noteq> i) (articles w)))
      then Inl (violation g)
      else Inr (w\<lparr>articles :=
             map (\<lambda>r. if a_id r = i then write_article up r else r) (articles w)\<rparr>))"
| "apply_stmt g (DeleteArticle i) w =
     Inr (w\<lparr>articles := filter (\<lambda>r. a_id r \<noteq> i) (articles w)\<rparr>)"
| "apply_stmt g (InsertTag t) w =
     (if t_name t \<in> set (map t_name (tags w)) then Inl (violation g)
      else Inr (w\<lparr>tags := tags w @ [t]\<rparr>))"
| "apply_stmt g (InsertArticleTags rs) w =
     Inr (w\<lparr>articles_tags := articles_tags w @ rs\<rparr>)"
| "apply_stmt g (DeleteArticleTags i) w =
     Inr (w\<lparr>articles_tags := filter (\<lambda>r. at_article r \<noteq> i) (articles_tags w)\<rparr>)"
| "apply_stmt g (InsertFavorite f) w =
     Inr (w\<lparr>favorites := favorites w @ [f]\<rparr>)"
| "apply_stmt g (DeleteFavorites u i) w =
     Inr (w\<lparr>favorites :=
            filter (\<lambda>r. \<not> (fv_user r = u \<and> fv_article r = i)) (favorites w)\<rparr>)"
| "apply_stmt g (IncrementFavorites i) w =
     Inr (w\<lparr>articles :=
            map (\<lambda>r. if a_id r = i then r\<lparr>a_favorites_count := a_favorites_count r + 1\<rparr> else r)
              (articles w)\<rparr>)"
| "apply_stmt g (DecrementFavorites i) w =
     Inr (w\<lparr>articles :=
            map (\<lambda>r. if a_id r = i then r\<lparr>a_favorites_count := a_favorites_count r - 1\<rparr> else r)
              (articles w)\<rparr>)"

section \<open>Collaborators of the controller\<close>

text \<open>
  The article object the handlers pass around, as validated by the article schema: the row's
  fields and the tag list.
\<close>

record article_doc =
  d_id :: ident
  d_slug :: string
  d_title :: string
  d_body :: string
  d_description :: string
  d_author :: ident
  d_tagList :: "string list"
  d_favorites_count :: int
  d_created_at :: nat
  d_updated_at :: nat

text \<open>
  The article of a request body, and the object handed to the schema: every field may be
  absent.
\<close>

record article_fields =
  af_id :: "ident option"
  af_slug :: "string option"
  af_title :: "string option"
  af_body :: "string option"
  af_description :: "string option"
  af_author :: "ident option"
  af_tagList :: "string list option"
  af_favorites_count :: "int option"
  af_created_at :: "nat option"
  af_updated_at :: "nat option"

text \<open>
  What the handlers take from outside this file: the engine family of the store; the faults
  of the store, by the position of the write statement in the sequence of all statements
  issued (\<open>None\<close>: the store processes the statement); the values of \<^verbatim>\<open>uuid()\<close> in the
  order of the calls; the \<^verbatim>\<open>slug\<close> library; the article and tag schemas of the
  application; and the clock.
\<close>

record env =
  engine :: engine
  fault :: "nat \<Rightarrow> db_error option"
  uuid_of :: "nat \<Rightarrow> ident"
  slugify :: "string \<Rightarrow> string"
  article_schema :: "article_fields \<Rightarrow> failure + article_doc"
  tag_schema :: "tag_row \<Rightarrow> failure + tag_row"
  now :: nat

text \<open>
  Issuing a write statement: it is recorded; the store then either reports the fault
  scheduled for it, or processes it, which can fail on a unique constraint.
\<close>

definition issue :: "env \<Rightarrow> stmt \<Rightarrow> world \<Rightarrow> db_error option \<times> world" where
  "issue e s w =
     (let w1 = w\<lparr>issued := issued w @ [s]\<rparr> in
      case fault e (length (issued w)) of
        Some err \<Rightarrow> (Some err, w1)
      | None \<Rightarrow>
          (case apply_stmt (engine e) s w1 of
             Inl err \<Rightarrow> (Some err, w1)
           | Inr w2 \<Rightarrow> (None, w2)))"

text \<open>
  \<^verbatim>\<open>await Promise.all([s1, s2, ...])\<close>: every statement of the array is issued, and the
  await throws when one of them failed. The statements are run in the order of the array,
  and the error thrown is the first of that order.
\<close>

fun issue_all :: "env \<Rightarrow> stmt list \<Rightarrow> world \<Rightarrow> db_error option \<times> world" where
  "issue_all e [] w = (None, w)"
| "issue_all e (s # ss) w =
     (case issue e s w of
        (r, w1) \<Rightarrow>
          (case issue_all e ss w1 of
             (r', w2) \<Rightarrow> ((case r of Some err \<Rightarrow> Some err | None \<Rightarrow> r'), w2)))"

definition uuid :: "env \<Rightarrow> world \<Rightarrow> ident \<times> world" where
  "uuid e w = (uuid_of e (uuid_count w), w\<lparr>uuid_count := Suc (uuid_count w)\<rparr>)"

section \<open>Objects of a request\<close>

record author_obj =
  ao_id :: "ident option"
  ao_username :: string
  ao_bio :: string
  ao_image :: string
  ao_following :: bool

text \<open>
  The \<^verbatim>\<open>author\<close> property of an article object is the identifier of the author, an
  object of its own, or the very object \<^verbatim>\<open>ctx.params.author\<close>: then a later change of that
  object shows in the article.
\<close>

datatype author_ref = AuthorId ident | AuthorObj author_obj | ParamsAuthor

record article_obj =
  o_id :: ident
  o_slug :: string
  o_title :: string
  o_body :: string
  o_description :: string
  o_tagList :: "string list"
  o_created_at :: nat
  o_updated_at :: nat
  o_favorited :: bool
  o_favorites_count :: int
  o_author :: author_ref

text \<open>\<^verbatim>\<open>ctx.body\<close>. The count of a list is \<open>None\<close> when \<^verbatim>\<open>Number\<close> gave \<^verbatim>\<open>NaN\<close>.\<close>

datatype body =
    OneArticle article_obj
  | ManyArticles "article_obj list" "int option"
  | EmptyObject

record ctx =
  state_user :: "user_row option"
  params_article :: article_obj
  params_author :: author_obj
  params_favorites :: "favorite_row list"
  params_tagList :: "string list"
  params_tagsRelations :: "article_tag_row list"
  request_article :: article_fields
  ctx_body :: "body option"

type_synonym handler = "env \<Rightarrow> ctx \<Rightarrow> world \<Rightarrow> (failure + ctx) \<times> world"

text \<open>\<^verbatim>\<open>x.author.id\<close> for an article object \<open>x\<close> of the request \<open>c\<close>.\<close>

definition author_id :: "ctx \<Rightarrow> article_obj \<Rightarrow> ident option" where
  "author_id c x =
     (case o_author x of
        AuthorId i \<Rightarrow> None
      | AuthorObj a \<Rightarrow> ao_id a
      | ParamsAuthor \<Rightarrow> ao_id (params_author c))"

text \<open>
  The response as it is serialised once the middleware chain has returned: the author of an
  article that is \<^verbatim>\<open>ctx.params.author\<close> is that object as it is then.
\<close>

definition settle :: "author_obj \<Rightarrow> article_obj \<Rightarrow> article_obj" where
  "settle pa x = (case o_author x of ParamsAuthor \<Rightarrow> x\<lparr>o_author := AuthorObj pa\<rparr> | _ \<Rightarrow> x)"

definition respond :: "ctx \<Rightarrow> body option" where
  "respond c =
     (case ctx_body c of
        None \<Rightarrow> None
      | Some (OneArticle x) \<Rightarrow> Some (OneArticle (settle (params_author c) x))
      | Some (ManyArticles xs n) \<Rightarrow> Some (ManyArticles (map (settle (params_author c)) xs) n)
      | Some EmptyObject \<Rightarrow> Some EmptyObject)"

section \<open>The articles controller\<close>

subsection \<open>\<^verbatim>\<open>bySlug\<close>\<close>

definition article_of_row :: "article_row \<Rightarrow> string list \<Rightarrow> article_obj" where
  "article_of_row r ns =
     \<lparr>o_id = a_id r, o_slug = a_slug r, o_title = a_title r, o_body = a_body r,
      o_description = a_description r, o_tagList = ns, o_created_at = a_created_at r,
      o_updated_at = a_updated_at r, o_favorited = False,
      o_favorites_count = a_favorites_count r, o_author = ParamsAuthor\<rparr>"

text \<open>
  The tag names of an article: the two selects on \<^verbatim>\<open>articles_tags\<close> and \<^verbatim>\<open>tags\<close>. The
  selects give no order; the rows come in the order of the table.
\<close>

definition relations_of :: "world \<Rightarrow> article_row \<Rightarrow> article_tag_row list" where
  "relations_of w row = filter (\<lambda>r. at_article r = a_id row) (articles_tags w)"

definition tagList_of :: "world \<Rightarrow> article_row \<Rightarrow> string list" where
  "tagList_of w row =
     (if relations_of w row \<noteq> []
      then map t_name (filter (\<lambda>t. t_id t \<in> set (map at_tag (relations_of w row))) (tags w))
      else [])"

text \<open>The select on \<^verbatim>\<open>followers\<close>, made for a user whose name is not the author's.\<close>

definition is_following :: "world \<Rightarrow> user_row option \<Rightarrow> user_row \<Rightarrow> bool" where
  "is_following w user au =
     (case user of
        None \<Rightarrow> False
      | Some u \<Rightarrow>
          u_username u \<noteq> u_username au \<and>
          filter (\<lambda>r. fl_user r = u_id au \<and> fl_follower r = u_id u) (followers w) \<noteq> [])"

text \<open>The select on \<^verbatim>\<open>favorites\<close>, made when the request has a user.\<close>

definition own_favorites :: "world \<Rightarrow> user_row option \<Rightarrow> article_row \<Rightarrow> favorite_row list" where
  "own_favorites w user row =
     (case user of
        None \<Rightarrow> []
      | Some u \<Rightarrow> filter (\<lambda>r. fv_user r = u_id u \<and> fv_article r = a_id row) (favorites w))"

definition author_of_row :: "user_row \<Rightarrow> bool \<Rightarrow> author_obj" where
  "author_of_row au fol =
     \<lparr>ao_id = Some (u_id au), ao_username = u_username au, ao_bio = u_bio au,
      ao_image = u_image au, ao_following = fol\<rparr>"

text \<open>The part of \<^verbatim>\<open>bySlug\<close> before \<^verbatim>\<open>await next()\<close>: it reads the store and fills \<^verbatim>\<open>ctx.params\<close>.\<close>

definition load :: "string \<Rightarrow> user_row option \<Rightarrow> article_fields \<Rightarrow> world \<Rightarrow> failure + ctx" where
  "load slug user flds w =
     (if slug = [] then Inl (HttpError 404)
      else case find (\<lambda>r. a_slug r = slug) (articles w) of
        None \<Rightarrow> Inl (HttpError 404)
      | Some row \<Rightarrow>
          (case find (\<lambda>u. u_id u = a_author row) (users w) of
             None \<Rightarrow> Inl TypeError
           | Some au \<Rightarrow>
               Inr \<lparr>state_user = user,
                    params_article =
                      (article_of_row row (tagList_of w row))
                        \<lparr>o_favorited := (own_favorites w user row \<noteq> [])\<rparr>,
                    params_author = author_of_row au (is_following w user au),
                    params_favorites = own_favorites w user row,
                    params_tagList = tagList_of w row,
                    params_tagsRelations = relations_of w row,
                    request_article = flds,
                    ctx_body = None\<rparr>))"

text \<open>\<^verbatim>\<open>delete ctx.params.author.id\<close>, after the handler has returned.\<close>

definition delete_author_id :: "ctx \<Rightarrow> ctx" where
  "delete_author_id c = c\<lparr>params_author := (params_author c)\<lparr>ao_id := None\<rparr>\<rparr>"

definition bySlug ::
  "handler \<Rightarrow> env \<Rightarrow> string \<Rightarrow> user_row option \<Rightarrow> article_fields \<Rightarrow> world \<Rightarrow>
     (failure + ctx) \<times> world" where
  "bySlug next e slug user flds w =
     (case load slug user flds w of
        Inl err \<Rightarrow> (Inl err, w)
      | Inr c \<Rightarrow>
          (case next e c w of
             (Inl err, w') \<Rightarrow> (Inl err, w')
           | (Inr c', w') \<Rightarrow> (Inr (delete_author_id c'), w')))"

subsection \<open>\<^verbatim>\<open>getOne\<close>\<close>

definition getOne :: handler where
  "getOne e c w = (Inr (c\<lparr>ctx_body := Some (OneArticle (params_article c))\<rparr>), w)"

subsection \<open>\<^verbatim>\<open>del\<close>\<close>

definition not_owned :: failure where
  "not_owned = ValidationError 422 [''not owned by user''] ''article''"

definition del :: handler where
  "del e c w =
     (case state_user c of
        None \<Rightarrow> (Inl TypeError, w)
      | Some u \<Rightarrow>
          if author_id c (params_article c) \<noteq> Some (u_id u) then (Inl not_owned, w)
          else
            (case issue_all e
                    [DeleteFavorites (u_id u) (o_id (params_article c)),
                     DeleteArticleTags (o_id (params_article c)),
                     DeleteArticle (o_id (params_article c))] w of
               (Some err, w') \<Rightarrow> (Inl (StoreError err), w')
             | (None, w') \<Rightarrow> (Inr (c\<lparr>ctx_body := Some EmptyObject\<rparr>), w')))"

subsection \<open>\<^verbatim>\<open>favorite.post\<close> and \<^verbatim>\<open>favorite.del\<close>\<close>

definition favorite_post :: handler where
  "favorite_post e c w =
     (let article = params_article c in
      if o_favorited article then (Inr (c\<lparr>ctx_body := Some (OneArticle article)\<rparr>), w)
      else
        (case uuid e w of
           (i, w1) \<Rightarrow>
             (case state_user c of
                None \<Rightarrow> (Inl TypeError, w1)
              | Some u \<Rightarrow>
                  (case issue_all e
                          [InsertFavorite
                             \<lparr>fv_id = i, fv_user = u_id u, fv_article = o_id article\<rparr>,
                           IncrementFavorites (o_id article)] w1 of
                     (Some err, w') \<Rightarrow> (Inl (StoreError err), w')
                   | (None, w') \<Rightarrow>
                       let article' =
                             article\<lparr>o_favorited := True,
                                     o_favorites_count := o_favorites_count article + 1\<rparr>
                       in (Inr (c\<lparr>params_article := article',
                                  ctx_body := Some (OneArticle article')\<rparr>), w')))))"

definition favorite_del :: handler where
  "favorite_del e c w =
     (let article = params_article c in
      if \<not> o_favorited article then (Inr (c\<lparr>ctx_body := Some (OneArticle article)\<rparr>), w)
      else
        (case state_user c of
           None \<Rightarrow> (Inl TypeError, w)
         | Some u \<Rightarrow>
             (case issue_all e
                     [DeleteFavorites (u_id u) (o_id article),
                      DecrementFavorites (o_id article)] w of
                (Some err, w') \<Rightarrow> (Inl (StoreError err), w')
              | (None, w') \<Rightarrow>
                  let article' =
                        article\<lparr>o_favorited := False,
                                o_favorites_count := o_favorites_count article - 1\<rparr>
                  in (Inr (c\<lparr>params_article := article',
                             ctx_body := Some (OneArticle article')\<rparr>), w'))))"

subsection \<open>Steps shared by \<^verbatim>\<open>post\<close> and \<^verbatim>\<open>put\<close>\<close>

text \<open>\<^verbatim>\<open>s.substr(-n)\<close>: the last \<open>n\<close> characters of \<open>s\<close>, all of \<open>s\<close> when it is shorter.\<close>

definition substr_last :: "nat \<Rightarrow> string \<Rightarrow> string" where
  "substr_last n s = drop (length s - n) s"

definition with_suffix :: "string \<Rightarrow> ident \<Rightarrow> string" where
  "with_suffix s i = s @ ''-'' @ substr_last 6 i"

text \<open>\<^verbatim>\<open>humps.decamelizeKeys(_.omit(article, ["tagList"]))\<close>\<close>

definition row_of_doc :: "article_doc \<Rightarrow> article_row" where
  "row_of_doc a =
     \<lparr>a_id = d_id a, a_slug = d_slug a, a_title = d_title a, a_body = d_body a,
      a_description = d_description a, a_author = d_author a,
      a_favorites_count = d_favorites_count a, a_created_at = d_created_at a,
      a_updated_at = d_updated_at a\<rparr>"

text \<open>
  \<^verbatim>\<open>_.pick(newArticle, ["title", "slug", "body", "description", "updatedAt"])\<close>
\<close>

definition update_cols :: "article_doc \<Rightarrow> article_update" where
  "update_cols a =
     \<lparr>up_title = d_title a, up_slug = d_slug a, up_body = d_body a,
      up_description = d_description a, up_updated_at = d_updated_at a\<rparr>"

text \<open>
  The \<^verbatim>\<open>try\<close>/\<^verbatim>\<open>catch\<close> around the article statement: \<open>mk\<close> builds the statement from the
  article (the insert of \<^verbatim>\<open>post\<close>, the update of \<^verbatim>\<open>put\<close>). The \<^verbatim>\<open>catch\<close> block throws
  the error on unless it is a unique violation, and otherwise changes the slug and issues
  the statement again, outside any \<^verbatim>\<open>try\<close>.
\<close>

definition write_with_retry ::
  "env \<Rightarrow> (article_doc \<Rightarrow> stmt) \<Rightarrow> article_doc \<Rightarrow> world \<Rightarrow> (failure + article_doc) \<times> world" where
  "write_with_retry e mk a w =
     (case issue e (mk a) w of
        (None, w1) \<Rightarrow> (Inr a, w1)
      | (Some err, w1) \<Rightarrow>
          if \<not> unique_violation err then (Inl (StoreError err), w1)
          else
            (case uuid e w1 of
               (i, w2) \<Rightarrow>
                 let a' = a\<lparr>d_slug := with_suffix (d_slug a) i\<rparr> in
                 (case issue e (mk a') w2 of
                    (None, w3) \<Rightarrow> (Inr a', w3)
                  | (Some err', w3) \<Rightarrow> (Inl (StoreError err'), w3))))"

text \<open>\<^verbatim>\<open>names.map(t => ({ id: uuid(), name: t }))\<close>\<close>

fun new_tags :: "env \<Rightarrow> string list \<Rightarrow> world \<Rightarrow> tag_row list \<times> world" where
  "new_tags e [] w = ([], w)"
| "new_tags e (n # ns) w =
     (case uuid e w of
        (i, w1) \<Rightarrow>
          (case new_tags e ns w1 of (ts, w2) \<Rightarrow> (\<lparr>t_id = i, t_name = n\<rparr> # ts, w2)))"

text \<open>\<^verbatim>\<open>Promise.all(ts.map(t => ctx.app.schemas.tag.validate(t, opts)))\<close>\<close>

fun validate_tags :: "env \<Rightarrow> tag_row list \<Rightarrow> failure + tag_row list" where
  "validate_tags e [] = Inr []"
| "validate_tags e (t # ts) =
     (case tag_schema e t of
        Inl f \<Rightarrow> Inl f
      | Inr t' \<Rightarrow>
          (case validate_tags e ts of Inl f \<Rightarrow> Inl f | Inr ts' \<Rightarrow> Inr (t' # ts')))"

text \<open>
  The loop over the tags: one insert for each, a unique violation caught and dropped, any
  other error thrown on.
\<close>

fun insert_tags :: "env \<Rightarrow> tag_row list \<Rightarrow> world \<Rightarrow> db_error option \<times> world" where
  "insert_tags e [] w = (None, w)"
| "insert_tags e (t # ts) w =
     (case issue e (InsertTag t) w of
        (None, w1) \<Rightarrow> insert_tags e ts w1
      | (Some err, w1) \<Rightarrow>
          if unique_violation err then insert_tags e ts w1 else (Some err, w1))"

text \<open>
  \<^verbatim>\<open>db("tags").select().whereIn("name", ts.map(t => t.name))\<close>, the rows in the order of
  the table.
\<close>

definition tags_named :: "string list \<Rightarrow> world \<Rightarrow> tag_row list" where
  "tags_named ns w = filter (\<lambda>t. t_name t \<in> set ns) (tags w)"

text \<open>\<^verbatim>\<open>ts.map(t => ({ id: uuid(), tag: t.id, article: article.id }))\<close>\<close>

fun new_relations :: "env \<Rightarrow> ident \<Rightarrow> tag_row list \<Rightarrow> world \<Rightarrow> article_tag_row list \<times> world" where
  "new_relations e a [] w = ([], w)"
| "new_relations e a (t # ts) w =
     (case uuid e w of
        (i, w1) \<Rightarrow>
          (case new_relations e a ts w1 of
             (rs, w2) \<Rightarrow> (\<lparr>at_id = i, at_article = a, at_tag = t_id t\<rparr> # rs, w2)))"

text \<open>
  From the loop to the insert of the relations: the part of \<^verbatim>\<open>post\<close> and of \<^verbatim>\<open>put\<close> that
  stores the validated tags \<open>ts\<close> for the article \<open>a\<close>.
\<close>

definition store_tags :: "env \<Rightarrow> ident \<Rightarrow> tag_row list \<Rightarrow> world \<Rightarrow> failure option \<times> world" where
  "store_tags e a ts w =
     (case insert_tags e ts w of
        (Some err, w1) \<Rightarrow> (Some (StoreError err), w1)
      | (None, w1) \<Rightarrow>
          (case new_relations e a (tags_named (map t_name ts) w1) w1 of
             (rs, w2) \<Rightarrow>
               (case issue e (InsertArticleTags rs) w2 of
                  (Some err, w3) \<Rightarrow> (Some (StoreError err), w3)
                | (None, w3) \<Rightarrow> (None, w3))))"

subsection \<open>\<^verbatim>\<open>post\<close>\<close>

definition picked_author :: "user_row \<Rightarrow> author_obj" where
  "picked_author u =
     \<lparr>ao_id = None, ao_username = u_username u, ao_bio = u_bio u, ao_image = u_image u,
      ao_following = False\<rparr>"

definition obj_of_doc :: "article_doc \<Rightarrow> bool \<Rightarrow> author_ref \<Rightarrow> article_obj" where
  "obj_of_doc a fav au =
     \<lparr>o_id = d_id a, o_slug = d_slug a, o_title = d_title a, o_body = d_body a,
      o_description = d_description a, o_tagList = d_tagList a,
      o_created_at = d_created_at a, o_updated_at = d_updated_at a, o_favorited = fav,
      o_favorites_count = d_favorites_count a, o_author = au\<rparr>"

definition post ::
  "env \<Rightarrow> user_row option \<Rightarrow> article_fields \<Rightarrow> world \<Rightarrow> (failure + body) \<times> world" where
  "post e user flds w =
     (case uuid e w of
        (i, w1) \<Rightarrow>
          (case user of
             None \<Rightarrow> (Inl TypeError, w1)
           | Some u \<Rightarrow>
               (case article_schema e (flds\<lparr>af_id := Some i, af_author := Some (u_id u)\<rparr>) of
                  Inl f \<Rightarrow> (Inl f, w1)
                | Inr a0 \<Rightarrow>
                    let a1 = a0\<lparr>d_slug := slugify e (d_title a0)\<rparr> in
                    (case new_tags e (d_tagList a1) w1 of
                       (ts0, w2) \<Rightarrow>
                         (case validate_tags e ts0 of
                            Inl f \<Rightarrow> (Inl f, w2)
                          | Inr ts \<Rightarrow>
                              (case write_with_retry e (\<lambda>a. InsertArticle (row_of_doc a)) a1 w2 of
                                 (Inl f, w3) \<Rightarrow> (Inl f, w3)
                               | (Inr a2, w3) \<Rightarrow>
                                   (case (if ts \<noteq> [] then store_tags e (d_id a2) ts w3
                                          else (None, w3)) of
                                      (Some f, w4) \<Rightarrow> (Inl f, w4)
                                    | (None, w4) \<Rightarrow>
                                        (Inr (OneArticle
                                           (obj_of_doc a2 False (AuthorObj (picked_author u)))),
                                         w4))))))))"

subsection \<open>\<^verbatim>\<open>put\<close>\<close>

text \<open>
  \<^verbatim>\<open>_.difference(array, ...values)\<close> of lodash: the elements of the array that occur in
  none of the value arrays. The handler calls it with the array alone.
\<close>

definition difference :: "'a list \<Rightarrow> 'a list list \<Rightarrow> 'a list" where
  "difference xs vss = filter (\<lambda>x. x \<notin> set (concat vss)) xs"

text \<open>
  \<^verbatim>\<open>Object.assign({}, article, fields)\<close> followed by
  \<^verbatim>\<open>newArticle.author = newArticle.author.id\<close>: a field of the request wins over the field
  of the stored article. An author that the request supplies is kept as it is, where the
  source reads its \<^verbatim>\<open>id\<close>.
\<close>

definition assign :: "ctx \<Rightarrow> article_obj \<Rightarrow> article_fields \<Rightarrow> article_fields" where
  "assign c x f =
     \<lparr>af_id = (case af_id f of None \<Rightarrow> Some (o_id x) | Some v \<Rightarrow> Some v),
      af_slug = (case af_slug f of None \<Rightarrow> Some (o_slug x) | Some v \<Rightarrow> Some v),
      af_title = (case af_title f of None \<Rightarrow> Some (o_title x) | Some v \<Rightarrow> Some v),
      af_body = (case af_body f of None \<Rightarrow> Some (o_body x) | Some v \<Rightarrow> Some v),
      af_description =
        (case af_description f of None \<Rightarrow> Some (o_description x) | Some v \<Rightarrow> Some v),
      af_author = (case af_author f of None \<Rightarrow> author_id c x | Some v \<Rightarrow> Some v),
      af_tagList = (case af_tagList f of None \<Rightarrow> Some (o_tagList x) | Some v \<Rightarrow> Some v),
      af_favorites_count =
        (case af_favorites_count f of None \<Rightarrow> Some (o_favorites_count x) | Some v \<Rightarrow> Some v),
      af_created_at =
        (case af_created_at f of None \<Rightarrow> Some (o_created_at x) | Some v \<Rightarrow> Some v),
      af_updated_at =
        (case af_updated_at f of None \<Rightarrow> Some (o_updated_at x) | Some v \<Rightarrow> Some v)\<rparr>"

text \<open>
  The two \<^verbatim>\<open>if\<close> statements on \<^verbatim>\<open>fields.tagList\<close>. An empty array is truthy, an absent
  field is not.
\<close>

definition put_tags ::
  "env \<Rightarrow> article_obj \<Rightarrow> article_fields \<Rightarrow> article_doc \<Rightarrow> world \<Rightarrow> failure option \<times> world" where
  "put_tags e article flds newArticle w =
     (case af_tagList flds of
        None \<Rightarrow> (None, w)
      | Some [] \<Rightarrow>
          (case issue e (DeleteArticleTags (o_id article)) w of
             (Some err, w1) \<Rightarrow> (Some (StoreError err), w1)
           | (None, w1) \<Rightarrow> (None, w1))
      | Some (n # ns) \<Rightarrow>
          if length (difference (o_tagList article) []) \<noteq> 0 \<or>
             length (difference (n # ns) []) \<noteq> 0
          then
            (case issue e (DeleteArticleTags (o_id article)) w of
               (Some err, w1) \<Rightarrow> (Some (StoreError err), w1)
             | (None, w1) \<Rightarrow>
                 (case new_tags e (d_tagList newArticle) w1 of
                    (ts0, w2) \<Rightarrow>
                      (case validate_tags e ts0 of
                         Inl f \<Rightarrow> (Some f, w2)
                       | Inr ts \<Rightarrow> store_tags e (o_id article) ts w2)))
          else (None, w))"

definition put :: handler where
  "put e c w =
     (let article = params_article c in
      case state_user c of
        None \<Rightarrow> (Inl TypeError, w)
      | Some u \<Rightarrow>
          if author_id c article \<noteq> Some (u_id u) then (Inl not_owned, w)
          else
            (let flds = request_article c in
             case article_schema e (assign c article flds) of
               Inl f \<Rightarrow> (Inl f, w)
             | Inr n0 \<Rightarrow>
                 let n1 = (if af_title flds \<noteq> None \<and> af_title flds \<noteq> Some []
                           then n0\<lparr>d_slug := slugify e (d_title n0)\<rparr> else n0);
                     n2 = n1\<lparr>d_updated_at := now e\<rparr>
                 in (case write_with_retry e
                            (\<lambda>a. UpdateArticle (o_id article) (update_cols a)) n2 w of
                       (Inl f, w1) \<Rightarrow> (Inl f, w1)
                     | (Inr n3, w1) \<Rightarrow>
                         (case put_tags e article flds n3 w1 of
                            (Some f, w2) \<Rightarrow> (Inl f, w2)
                          | (None, w2) \<Rightarrow>
                              (Inr (c\<lparr>ctx_body :=
                                      Some (OneArticle
                                        (obj_of_doc n3 (o_favorited article) ParamsAuthor))\<rparr>),
                               w2)))))"

section \<open>Lists of articles\<close>

subsection \<open>The joined rows\<close>

text \<open>
  A row of the select of \<^verbatim>\<open>get\<close> and \<^verbatim>\<open>feed.get\<close>: the article, and what the left joins
  found for it (\<open>None\<close>: the columns are null). Of a favorite and of a follower row the
  select keeps the \<^verbatim>\<open>id\<close>.
\<close>

record joined_row =
  j_article :: article_row
  j_author :: "user_row option"
  j_relation :: "article_tag_row option"
  j_tag :: "tag_row option"
  j_favorited :: "ident option"
  j_following :: "ident option"

text \<open>
  A left join, for one row of the left side: the rows of the table that satisfy the join
  condition, or one null row when none does.
\<close>

definition matches :: "('b \<Rightarrow> bool) \<Rightarrow> 'b list \<Rightarrow> 'b option list" where
  "matches on tbl = (case filter on tbl of [] \<Rightarrow> [None] | m # ms \<Rightarrow> map Some (m # ms))"

text \<open>
  \<^verbatim>\<open>[user && user.id]\<close>, the list of the \<^verbatim>\<open>onIn\<close> conditions: for a request with no user it
  holds \<^verbatim>\<open>undefined\<close>, a null binding that no row equals.
\<close>

definition viewer_ids :: "user_row option \<Rightarrow> ident list" where
  "viewer_ids user = (case user of None \<Rightarrow> [] | Some u \<Rightarrow> [u_id u])"

definition join_author :: "world \<Rightarrow> article_row \<Rightarrow> user_row option list" where
  "join_author w a = matches (\<lambda>u. a_author a = u_id u) (users w)"

definition join_relation :: "world \<Rightarrow> article_row \<Rightarrow> article_tag_row option list" where
  "join_relation w a = matches (\<lambda>r. a_id a = at_article r) (articles_tags w)"

definition join_tag :: "world \<Rightarrow> article_tag_row option \<Rightarrow> tag_row option list" where
  "join_tag w rel =
     matches (\<lambda>t. case rel of None \<Rightarrow> False | Some r \<Rightarrow> at_tag r = t_id t) (tags w)"

definition join_favorite :: "world \<Rightarrow> user_row option \<Rightarrow> article_row \<Rightarrow> ident option list" where
  "join_favorite w user a =
     map (map_option fv_id)
       (matches (\<lambda>f. a_id a = fv_article f \<and> fv_user f \<in> set (viewer_ids user))
          (favorites w))"

definition join_follower :: "world \<Rightarrow> user_row option \<Rightarrow> article_row \<Rightarrow> ident option list" where
  "join_follower w user a =
     map (map_option fl_id)
       (matches (\<lambda>f. a_author a = fl_user f \<and> fl_follower f \<in> set (viewer_ids user))
          (followers w))"

text \<open>The rows the five left joins of \<^verbatim>\<open>get\<close> make of one article.\<close>

definition list_rows_of :: "world \<Rightarrow> user_row option \<Rightarrow> article_row \<Rightarrow> joined_row list" where
  "list_rows_of w user a =
     [\<lparr>j_article = a, j_author = au, j_relation = rel, j_tag = tg, j_favorited = fav,
       j_following = fol\<rparr>.
        au \<leftarrow> join_author w a, rel \<leftarrow> join_relation w a, tg \<leftarrow> join_tag w rel,
        fav \<leftarrow> join_favorite w user a, fol \<leftarrow> join_follower w user a]"

text \<open>The rows the four left joins of \<^verbatim>\<open>feed.get\<close> make of one article.\<close>

definition feed_rows_of :: "world \<Rightarrow> user_row option \<Rightarrow> article_row \<Rightarrow> joined_row list" where
  "feed_rows_of w user a =
     [\<lparr>j_article = a, j_author = au, j_relation = rel, j_tag = tg, j_favorited = fav,
       j_following = None\<rparr>.
        au \<leftarrow> join_author w a, rel \<leftarrow> join_relation w a, tg \<leftarrow> join_tag w rel,
        fav \<leftarrow> join_favorite w user a]"

text \<open>
  \<^verbatim>\<open>orderBy("articles.created_at", "desc")\<close>, then \<^verbatim>\<open>offset\<close> and \<^verbatim>\<open>limit\<close>, on the joined
  rows. Rows of equal creation time keep the order the joins gave them.
\<close>

definition page :: "nat \<Rightarrow> nat \<Rightarrow> joined_row list \<Rightarrow> joined_row list" where
  "page off lim rows =
     take lim (drop off (sort_key (\<lambda>j. - int (a_created_at (j_article j))) rows))"

subsection \<open>The filters of \<^verbatim>\<open>get\<close>\<close>

record list_query =
  q_offset :: nat
  q_limit :: nat
  q_tag :: "string list"
  q_author :: "string list"
  q_favorited :: "string list"

definition users_named :: "world \<Rightarrow> string list \<Rightarrow> ident list" where
  "users_named w ns = map u_id (filter (\<lambda>u. u_username u \<in> set ns) (users w))"

definition by_author :: "world \<Rightarrow> string list \<Rightarrow> article_row \<Rightarrow> bool" where
  "by_author w ns a = (a_author a \<in> set (users_named w ns))"

definition by_favorited :: "world \<Rightarrow> string list \<Rightarrow> article_row \<Rightarrow> bool" where
  "by_favorited w ns a =
     (a_id a \<in> set (map fv_article
        (filter (\<lambda>f. fv_user f \<in> set (users_named w ns)) (favorites w))))"

definition by_tag :: "world \<Rightarrow> string list \<Rightarrow> article_row \<Rightarrow> bool" where
  "by_tag w ns a =
     (a_id a \<in> set (map at_article
        (filter (\<lambda>r. at_tag r \<in> set (map t_id (filter (\<lambda>t. t_name t \<in> set ns) (tags w))))
           (articles_tags w))))"

text \<open>The \<^verbatim>\<open>andWhere\<close> conditions, each added to both queries when its filter is given.\<close>

definition selected :: "world \<Rightarrow> list_query \<Rightarrow> article_row \<Rightarrow> bool" where
  "selected w q a =
     ((q_author q = [] \<or> by_author w (q_author q) a) \<and>
      (q_favorited q = [] \<or> by_favorited w (q_favorited q) a) \<and>
      (q_tag q = [] \<or> by_tag w (q_tag q) a))"

definition articlesQuery :: "world \<Rightarrow> user_row option \<Rightarrow> list_query \<Rightarrow> joined_row list" where
  "articlesQuery w user q =
     page (q_offset q) (q_limit q)
       (concat (map (list_rows_of w user) (filter (selected w q) (articles w))))"

subsection \<open>The count row\<close>

record count_row =
  cr_count :: jsval
  cr_count_star :: jsval

text \<open>A number in decimal digits; \<open>digit_char\<close> is applied below ten only.\<close>

definition digit_char :: "nat \<Rightarrow> char" where
  "digit_char d = ''0123456789'' ! d"

function decimal :: "nat \<Rightarrow> string" where
  "decimal n =
     (if n < 10 then [digit_char n] else decimal (n div 10) @ [digit_char (n mod 10)])"
  by pat_completeness auto
termination
  by (relation "measure id") auto

text \<open>
  Modelled from the spec: the count of a store comes back as a number or as a string,
  depending on the engine family; the one under the column name \<^verbatim>\<open>count(*)\<close>, the other
  under \<^verbatim>\<open>count\<close>.
\<close>

definition count_result :: "engine \<Rightarrow> nat \<Rightarrow> count_row" where
  "count_result g n =
     (case g of
        Sqlite \<Rightarrow> \<lparr>cr_count = Undefined, cr_count_star = Num (int n)\<rparr>
      | Postgres \<Rightarrow> \<lparr>cr_count = Str (decimal n), cr_count_star = Undefined\<rparr>)"

definition countQuery :: "engine \<Rightarrow> world \<Rightarrow> list_query \<Rightarrow> count_row" where
  "countQuery g w q = count_result g (length (filter (selected w q) (articles w)))"

text \<open>\<^verbatim>\<open>a || b\<close>: \<open>a\<close> unless it is \<^verbatim>\<open>undefined\<close>, zero or the empty string.\<close>

definition js_or :: "jsval \<Rightarrow> jsval \<Rightarrow> jsval" where
  "js_or a b = (if a = Undefined \<or> a = Num 0 \<or> a = Str [] then b else a)"

text \<open>
  \<^verbatim>\<open>Number(x)\<close> for the values a count can be: \<^verbatim>\<open>NaN\<close> for \<^verbatim>\<open>undefined\<close>, and for a string
  of decimal digits the number it writes, zero for the empty string. A string with any
  other character is taken for \<^verbatim>\<open>NaN\<close>.
\<close>

fun digits_value :: "nat \<Rightarrow> string \<Rightarrow> nat option" where
  "digits_value acc [] = Some acc"
| "digits_value acc (c # cs) =
     (case digit_val c of None \<Rightarrow> None | Some d \<Rightarrow> digits_value (10 * acc + d) cs)"

fun Number :: "jsval \<Rightarrow> int option" where
  "Number Undefined = None"
| "Number (Num n) = Some n"
| "Number (Str s) = map_option int (digits_value 0 s)"

definition articlesCount :: "count_row \<Rightarrow> int option" where
  "articlesCount countRes = Number (js_or (cr_count countRes) (cr_count_star countRes))"

subsection \<open>From rows to nested objects\<close>

record nested_author =
  na_user :: user_row
  na_following :: "ident option"

record nested_article =
  n_article :: article_row
  n_author :: "nested_author option"
  n_tagList :: "tag_row list"
  n_favorited :: "ident option"

text \<open>
  Modelled from the spec: the relation maps of the repository are not among its sources
  here. One nested record for each article id, in the order of the first row of each; its
  author is the author of that row; its tags are those of its rows, one for each name; its
  favorite marker and its author's follow marker are non-null when those of one of its rows
  are.
\<close>

definition first_row :: "joined_row \<Rightarrow> nested_article" where
  "first_row j =
     \<lparr>n_article = j_article j,
      n_author = map_option (\<lambda>u. \<lparr>na_user = u, na_following = j_following j\<rparr>) (j_author j),
      n_tagList = (case j_tag j of None \<Rightarrow> [] | Some t \<Rightarrow> [t]),
      n_favorited = j_favorited j\<rparr>"

definition or_marker :: "ident option \<Rightarrow> ident option \<Rightarrow> ident option" where
  "or_marker a b = (case a of None \<Rightarrow> b | Some i \<Rightarrow> Some i)"

definition next_row :: "joined_row \<Rightarrow> nested_article \<Rightarrow> nested_article" where
  "next_row j n =
     n\<lparr>n_author :=
         map_option (\<lambda>a. a\<lparr>na_following := or_marker (na_following a) (j_following j)\<rparr>)
           (n_author n),
       n_tagList :=
         (case j_tag j of
            None \<Rightarrow> n_tagList n
          | Some t \<Rightarrow>
              if t_name t \<in> set (map t_name (n_tagList n)) then n_tagList n
              else n_tagList n @ [t]),
       n_favorited := or_marker (n_favorited n) (j_favorited j)\<rparr>"

fun absorb :: "joined_row \<Rightarrow> nested_article list \<Rightarrow> nested_article list" where
  "absorb j [] = [first_row j]"
| "absorb j (n # ns) =
     (if a_id (n_article n) = a_id (j_article j) then next_row j n # ns
      else n # absorb j ns)"

definition materialize :: "joined_row list \<Rightarrow> nested_article list" where
  "materialize rows = foldl (\<lambda>ns j. absorb j ns) [] rows"

subsection \<open>\<^verbatim>\<open>get\<close> and \<^verbatim>\<open>feed.get\<close>\<close>

text \<open>\<^verbatim>\<open>Boolean(x)\<close> for a marker: null and the empty string are false.\<close>

definition Boolean :: "ident option \<Rightarrow> bool" where
  "Boolean x = (case x of None \<Rightarrow> False | Some i \<Rightarrow> i \<noteq> [])"

text \<open>
  The function both handlers map over the nested records; they differ in the value of
  \<^verbatim>\<open>following\<close>, which \<open>fol\<close> computes. Reading \<^verbatim>\<open>a.author.following\<close> throws when the
  author is null.
\<close>

definition shape :: "(nested_author \<Rightarrow> bool) \<Rightarrow> nested_article \<Rightarrow> failure + article_obj" where
  "shape fol n =
     (case n_author n of
        None \<Rightarrow> Inl TypeError
      | Some a \<Rightarrow>
          Inr ((article_of_row (n_article n) (map t_name (n_tagList n)))
                \<lparr>o_favorited := Boolean (n_favorited n),
                 o_author :=
                   AuthorObj
                     \<lparr>ao_id = None, ao_username = u_username (na_user a),
                      ao_bio = u_bio (na_user a), ao_image = u_image (na_user a),
                      ao_following = fol a\<rparr>\<rparr>))"

fun map_throwing :: "('a \<Rightarrow> failure + 'b) \<Rightarrow> 'a list \<Rightarrow> failure + 'b list" where
  "map_throwing f [] = Inr []"
| "map_throwing f (x # xs) =
     (case f x of
        Inl err \<Rightarrow> Inl err
      | Inr y \<Rightarrow> (case map_throwing f xs of Inl err \<Rightarrow> Inl err | Inr ys \<Rightarrow> Inr (y # ys)))"

definition get ::
  "env \<Rightarrow> user_row option \<Rightarrow> list_query \<Rightarrow> world \<Rightarrow> (failure + body) \<times> world" where
  "get e user q w =
     (case map_throwing (shape (\<lambda>a. Boolean (na_following a)))
             (materialize (articlesQuery w user q)) of
        Inl err \<Rightarrow> (Inl err, w)
      | Inr xs \<Rightarrow> (Inr (ManyArticles xs (articlesCount (countQuery (engine e) w q))), w))"

definition followedIds :: "world \<Rightarrow> user_row \<Rightarrow> ident list" where
  "followedIds w u = map fl_user (filter (\<lambda>r. fl_follower r = u_id u) (followers w))"

definition feed_get ::
  "env \<Rightarrow> user_row option \<Rightarrow> nat \<Rightarrow> nat \<Rightarrow> world \<Rightarrow> (failure + body) \<times> world" where
  "feed_get e user off lim w =
     (case user of
        None \<Rightarrow> (Inl TypeError, w)
      | Some u \<Rightarrow>
          let followed = filter (\<lambda>a. a_author a \<in> set (followedIds w u)) (articles w) in
          (case map_throwing (shape (\<lambda>a. True))
                  (materialize (page off lim (concat (map (feed_rows_of w user) followed)))) of
             Inl err \<Rightarrow> (Inl err, w)
           | Inr xs \<Rightarrow>
               (Inr (ManyArticles xs
                  (articlesCount (count_result (engine e) (length followed)))), w)))"

section \<open>Observations on the store\<close>

text \<open>The columns of an article row that are not among the five an update writes.\<close>

definition kept :: "article_row \<Rightarrow> ident \<times> ident \<times> int \<times> nat" where
  "kept r = (a_id r, a_author r, a_favorites_count r, a_created_at r)"

text \<open>The statements on the tables \<^verbatim>\<open>tags\<close> and \<^verbatim>\<open>articles_tags\<close>.\<close>

definition tag_stmt :: "stmt \<Rightarrow> bool" where
  "tag_stmt s =
     (case s of
        InsertTag t \<Rightarrow> True
      | InsertArticleTags rs \<Rightarrow> True
      | DeleteArticleTags i \<Rightarrow> True
      | _ \<Rightarrow> False)"

text \<open>
  An article of a response hides the id of its author when its author is an object with no
  \<^verbatim>\<open>id\<close> property.
\<close>

definition hides_id :: "article_obj \<Rightarrow> bool" where
  "hides_id x = (case o_author x of AuthorObj a \<Rightarrow> ao_id a = None | _ \<Rightarrow> False)"

fun all_hide_id :: "body \<Rightarrow> bool" where
  "all_hide_id (OneArticle x) = hides_id x"
| "all_hide_id (ManyArticles xs n) = list_all hides_id xs"
| "all_hide_id EmptyObject = True"














section \<open>Sample data\<close>

text \<open>
  A small store and environment on which the properties below are run: two users, Alice's
  article with one tag, favorited by Bob, who follows Alice; and Bob's article with two
  tags. The sample schema asks for an id, a title, a body, a description and an author.
\<close>

declare decimal.simps [simp del]

definition sample_schema :: "article_fields \<Rightarrow> failure + article_doc" where
  "sample_schema f =
     (case (af_id f, af_title f, af_body f, af_description f, af_author f) of
        (Some i, Some t, Some b, Some d, Some a) \<Rightarrow>
          Inr \<lparr>d_id = i, d_slug = (case af_slug f of None \<Rightarrow> [] | Some s \<Rightarrow> s),
               d_title = t, d_body = b, d_description = d, d_author = a,
               d_tagList = (case af_tagList f of None \<Rightarrow> [] | Some ns \<Rightarrow> ns),
               d_favorites_count = (case af_favorites_count f of None \<Rightarrow> 0 | Some n \<Rightarrow> n),
               d_created_at = (case af_created_at f of None \<Rightarrow> 0 | Some n \<Rightarrow> n),
               d_updated_at = (case af_updated_at f of None \<Rightarrow> 0 | Some n \<Rightarrow> n)\<rparr>
      | _ \<Rightarrow> Inl (SchemaError [''required'']))"

definition sample_env :: env where
  "sample_env =
     \<lparr>engine = Postgres, fault = (\<lambda>n. None), uuid_of = (\<lambda>n. ''0f8fad5b-d9cb-'' @ decimal n),
      slugify = map (\<lambda>c. if c = CHR '' '' then CHR ''-'' else c),
      article_schema = sample_schema, tag_schema = Inr, now = 9\<rparr>"

definition alice :: user_row where
  "alice = \<lparr>u_id = ''u1'', u_username = ''alice'', u_bio = ''writes'', u_image = ''a.png''\<rparr>"

definition bob :: user_row where
  "bob = \<lparr>u_id = ''u2'', u_username = ''bob'', u_bio = ''reads'', u_image = ''b.png''\<rparr>"

definition hello :: article_row where
  "hello =
     \<lparr>a_id = ''a1'', a_slug = ''hello'', a_title = ''hello'', a_body = ''text'',
      a_description = ''greeting'', a_author = ''u1'', a_favorites_count = 1,
      a_created_at = 3, a_updated_at = 3\<rparr>"

definition memo :: article_row where
  "memo =
     \<lparr>a_id = ''a2'', a_slug = ''notes'', a_title = ''notes'', a_body = ''more'',
      a_description = ''remarks'', a_author = ''u2'', a_favorites_count = 0,
      a_created_at = 5, a_updated_at = 5\<rparr>"

definition sample_world :: world where
  "sample_world =
     \<lparr>articles = [hello, memo], users = [alice, bob],
      tags = [\<lparr>t_id = ''t1'', t_name = ''lorem''\<rparr>, \<lparr>t_id = ''t2'', t_name = ''dolor''\<rparr>],
      articles_tags =
        [\<lparr>at_id = ''r1'', at_article = ''a1'', at_tag = ''t1''\<rparr>,
         \<lparr>at_id = ''r2'', at_article = ''a2'', at_tag = ''t1''\<rparr>,
         \<lparr>at_id = ''r3'', at_article = ''a2'', at_tag = ''t2''\<rparr>],
      favorites = [\<lparr>fv_id = ''f1'', fv_user = ''u2'', fv_article = ''a1''\<rparr>],
      followers = [\<lparr>fl_id = ''w1'', fl_user = ''u1'', fl_follower = ''u2''\<rparr>],
      issued = [], uuid_count = 0\<rparr>"

definition no_fields :: article_fields where
  "no_fields =
     \<lparr>af_id = None, af_slug = None, af_title = None, af_body = None, af_description = None,
      af_author = None, af_tagList = None, af_favorites_count = None, af_created_at = None,
      af_updated_at = None\<rparr>"

text \<open>Requests on the sample store.\<close>

definition alice_deletes :: "(failure + ctx) \<times> world" where
  "alice_deletes = bySlug del sample_env ''hello'' (Some alice) no_fields sample_world"

definition alice_favorites :: "(failure + ctx) \<times> world" where
  "alice_favorites =
     bySlug favorite_post sample_env ''hello'' (Some alice) no_fields sample_world"

definition bob_unfavorites :: "(failure + ctx) \<times> world" where
  "bob_unfavorites =
     bySlug favorite_del sample_env ''hello'' (Some bob) no_fields sample_world"

definition alice_loads :: ctx where
  "alice_loads = projr (load ''hello'' (Some alice) no_fields sample_world)"

definition bob_loads :: ctx where
  "bob_loads = projr (load ''hello'' (Some bob) no_fields sample_world)"

definition alice_retitles :: "(failure + ctx) \<times> world" where
  "alice_retitles =
     bySlug put sample_env ''hello'' (Some alice) (no_fields\<lparr>af_title := Some ''salve''\<rparr>)
       sample_world"

definition alice_retags :: "(failure + ctx) \<times> world" where
  "alice_retags =
     bySlug put sample_env ''hello'' (Some alice) (no_fields\<lparr>af_tagList := Some [''lorem'']\<rparr>)
       sample_world"

text \<open>
  Creating articles on the sample store: a store that loses the connection at its
  statement number \<open>k\<close>; Bob's article with the title of Alice's, and the states after the
  first and the second insert; Bob's article with two tags, one of them in the store.
\<close>

definition lost :: db_error where
  "lost = \<lparr>err_errno = Undefined, err_code = Str ''ECONNRESET''\<rparr>"

definition failing_at :: "nat \<Rightarrow> env" where
  "failing_at k = sample_env\<lparr>fault := (\<lambda>n. if n = k then Some lost else None)\<rparr>"

definition hello_again :: article_fields where
  "hello_again =
     no_fields\<lparr>af_title := Some ''hello'', af_body := Some ''once more'',
       af_description := Some ''greeting''\<rparr>"

definition draft :: article_doc where
  "draft =
     \<lparr>d_id = ''0f8fad5b-d9cb-0'', d_slug = [], d_title = ''hello'', d_body = ''once more'',
      d_description = ''greeting'', d_author = ''u2'', d_tagList = [], d_favorites_count = 0,
      d_created_at = 0, d_updated_at = 0\<rparr>"

definition counted :: "nat \<Rightarrow> world \<Rightarrow> world" where
  "counted n w = w\<lparr>uuid_count := n\<rparr>"

definition first_try :: "env \<Rightarrow> db_error option \<times> world" where
  "first_try e =
     issue e (InsertArticle (row_of_doc (draft\<lparr>d_slug := ''hello''\<rparr>))) (counted 1 sample_world)"

definition second_try :: "env \<Rightarrow> db_error option \<times> world" where
  "second_try e =
     issue e (InsertArticle (row_of_doc (draft\<lparr>d_slug := ''hello-d9cb-1''\<rparr>)))
       ((snd (first_try e))\<lparr>uuid_count := Suc (uuid_count (snd (first_try e)))\<rparr>)"

definition tagged :: article_fields where
  "tagged =
     no_fields\<lparr>af_title := Some ''fresh'', af_body := Some ''new text'',
       af_description := Some ''news'', af_tagList := Some [''lorem'', ''ipsum'']\<rparr>"

definition fresh :: article_doc where
  "fresh =
     \<lparr>d_id = ''0f8fad5b-d9cb-0'', d_slug = [], d_title = ''fresh'', d_body = ''new text'',
      d_description = ''news'', d_author = ''u2'', d_tagList = [''lorem'', ''ipsum''],
      d_favorites_count = 0, d_created_at = 0, d_updated_at = 0\<rparr>"

definition new_pair :: "tag_row list" where
  "new_pair =
     [\<lparr>t_id = ''0f8fad5b-d9cb-1'', t_name = ''lorem''\<rparr>,
      \<lparr>t_id = ''0f8fad5b-d9cb-2'', t_name = ''ipsum''\<rparr>]"

definition stored :: "env \<Rightarrow> world" where
  "stored e =
     snd (issue e (InsertArticle (row_of_doc (fresh\<lparr>d_slug := ''fresh''\<rparr>)))
            (counted 3 sample_world))"

definition bob_posts :: "(failure + body) \<times> world" where
  "bob_posts = post sample_env (Some bob) tagged sample_world"

text \<open>Reads of the sample store.\<close>

definition everything :: list_query where
  "everything = \<lparr>q_offset = 0, q_limit = 20, q_tag = [], q_author = [], q_favorited = []\<rparr>"

definition bob_reads :: "(failure + ctx) \<times> world" where
  "bob_reads = bySlug getOne sample_env ''hello'' (Some bob) no_fields sample_world"

definition bob_lists :: "(failure + body) \<times> world" where
  "bob_lists = get sample_env (Some bob) everything sample_world"

definition bob_feed :: "(failure + body) \<times> world" where
  "bob_feed = feed_get sample_env (Some bob) 0 20 sample_world"










section \<open>Properties\<close>

subsection \<open>Statements that the store processed\<close>

lemma issue_None:
  "issue e s w = (None, w') \<Longrightarrow>
     fault e (length (issued w)) = None \<and>
     apply_stmt (engine e) s (w\<lparr>issued := issued w @ [s]\<rparr>) = Inr w'"
  by (auto simp: issue_def Let_def split: option.splits sum.splits)

lemma issue_all3:
  assumes "issue_all e [s1, s2, s3] w = (None, w')"
  shows "\<exists>w1 w2. issue e s1 w = (None, w1) \<and> issue e s2 w1 = (None, w2) \<and> issue e s3 w2 = (None, w')"
  using assms by (auto split: prod.splits option.splits)

lemma issue_all2:
  assumes "issue_all e [s1, s2] w = (None, w')"
  shows "\<exists>w1. issue e s1 w = (None, w1) \<and> issue e s2 w1 = (None, w')"
  using assms by (auto split: prod.splits option.splits)

lemma issue_DeleteFavorites:
  "issue e (DeleteFavorites u i) w = (None, w') \<Longrightarrow>
     w' = w\<lparr>issued := issued w @ [DeleteFavorites u i],
           favorites := filter (\<lambda>r. \<not> (fv_user r = u \<and> fv_article r = i)) (favorites w)\<rparr>"
  by (auto simp: issue_def Let_def split: option.splits)

lemma issue_DeleteArticleTags:
  "issue e (DeleteArticleTags i) w = (None, w') \<Longrightarrow>
     w' = w\<lparr>issued := issued w @ [DeleteArticleTags i],
           articles_tags := filter (\<lambda>r. at_article r \<noteq> i) (articles_tags w)\<rparr>"
  by (auto simp: issue_def Let_def split: option.splits)

lemma issue_DeleteArticle:
  "issue e (DeleteArticle i) w = (None, w') \<Longrightarrow>
     w' = w\<lparr>issued := issued w @ [DeleteArticle i],
           articles := filter (\<lambda>r. a_id r \<noteq> i) (articles w)\<rparr>"
  by (auto simp: issue_def Let_def split: option.splits)

lemma issue_InsertFavorite:
  "issue e (InsertFavorite f) w = (None, w') \<Longrightarrow>
     w' = w\<lparr>issued := issued w @ [InsertFavorite f], favorites := favorites w @ [f]\<rparr>"
  by (auto simp: issue_def Let_def split: option.splits)

lemma issue_IncrementFavorites:
  "issue e (IncrementFavorites i) w = (None, w') \<Longrightarrow>
     w' = w\<lparr>issued := issued w @ [IncrementFavorites i],
           articles := map (\<lambda>r. if a_id r = i then r\<lparr>a_favorites_count := a_favorites_count r + 1\<rparr> else r)
              (articles w)\<rparr>"
  by (auto simp: issue_def Let_def split: option.splits)

lemma issue_DecrementFavorites:
  "issue e (DecrementFavorites i) w = (None, w') \<Longrightarrow>
     w' = w\<lparr>issued := issued w @ [DecrementFavorites i],
           articles := map (\<lambda>r. if a_id r = i then r\<lparr>a_favorites_count := a_favorites_count r - 1\<rparr> else r)
              (articles w)\<rparr>"
  by (auto simp: issue_def Let_def split: option.splits)

subsection \<open>What \<^verbatim>\<open>bySlug\<close> loads\<close>

lemma load_found:
  assumes "load slug user flds w = Inr c"
  shows "\<exists>row au. slug \<noteq> [] \<and> find (\<lambda>r. a_slug r = slug) (articles w) = Some row \<and>
     find (\<lambda>x. u_id x = a_author row) (users w) = Some au \<and>
     c = \<lparr>state_user = user,
                    params_article =
                      (article_of_row row (tagList_of w row))
                        \<lparr>o_favorited := (own_favorites w user row \<noteq> [])\<rparr>,
                    params_author = author_of_row au (is_following w user au),
                    params_favorites = own_favorites w user row,
                    params_tagList = tagList_of w row,
                    params_tagsRelations = relations_of w row,
                    request_article = flds,
                    ctx_body = None\<rparr>"
  using assms by (auto simp: load_def split: if_splits option.splits)

lemma load_author_id:
  assumes "load slug user flds w = Inr c"
    and "find (\<lambda>r. a_slug r = slug) (articles w) = Some row"
  shows "author_id c (params_article c) = Some (a_author row) \<and> state_user c = user
     \<and> o_id (params_article c) = a_id row"
  using load_found[OF assms(1)] assms(2)
  by (auto simp: author_id_def article_of_row_def author_of_row_def find_Some_iff)

lemma load_Inr:
  assumes "slug \<noteq> []" "find (\<lambda>r. a_slug r = slug) (articles w) = Some row"
    "find (\<lambda>x. u_id x = a_author row) (users w) = Some au"
  shows "load slug user flds w =
     Inr \<lparr>state_user = user,
                    params_article =
                      (article_of_row row (tagList_of w row))
                        \<lparr>o_favorited := (own_favorites w user row \<noteq> [])\<rparr>,
                    params_author = author_of_row au (is_following w user au),
                    params_favorites = own_favorites w user row,
                    params_tagList = tagList_of w row,
                    params_tagsRelations = relations_of w row,
                    request_article = flds,
                    ctx_body = None\<rparr>"
  using assms by (simp add: load_def)

lemma bySlug_Inr:
  assumes "bySlug next e slug user flds w = (Inr c', w')"
  shows "\<exists>c c0. load slug user flds w = Inr c \<and> next e c w = (Inr c0, w') \<and> c' = delete_author_id c0"
  using assms by (auto simp: bySlug_def split: sum.splits prod.splits)

lemma find_map: "find P (map f xs) = map_option f (find (\<lambda>x. P (f x)) xs)"
  by (induction xs) auto

lemma tagList_of_cong:
  "articles_tags w' = articles_tags w \<Longrightarrow> tags w' = tags w \<Longrightarrow> a_id r' = a_id r \<Longrightarrow>
     tagList_of w' r' = tagList_of w r"
  by (simp add: tagList_of_def relations_of_def)

lemma pair_Inr: "\<not> isl (fst X) \<Longrightarrow> X = (Inr (projr (fst X)), snd X)"
  by (cases X, cases "fst X") auto

lemmas sample_defs =
  sample_world_def sample_env_def alice_def bob_def hello_def memo_def no_fields_def

lemmas load_defs =
  load_def article_of_row_def tagList_of_def relations_of_def own_favorites_def
  is_following_def author_of_row_def

subsection \<open>Ownership\<close>

lemma not_owned_handlers:
  "state_user c = Some u \<Longrightarrow> author_id c (params_article c) \<noteq> Some (u_id u) \<Longrightarrow>
     put e c w = (Inl not_owned, w) \<and> del e c w = (Inl not_owned, w)"
  by (simp add: put_def del_def Let_def)

text \<open>
  C9. A caller who is not the author of the article: \<^verbatim>\<open>put\<close> and \<^verbatim>\<open>del\<close> fail with the
  validation error of status 422 whose path is "article", and the state of the store is
  the one before the request, no write statement having been issued.
\<close>

theorem non_author_rejected:
  assumes "slug \<noteq> []"
    and "find (\<lambda>r. a_slug r = slug) (articles w) = Some row"
    and "find (\<lambda>x. u_id x = a_author row) (users w) = Some au"
    and "a_author row \<noteq> u_id u"
  shows "bySlug put e slug (Some u) flds w =
           (Inl (ValidationError 422 [''not owned by user''] ''article''), w) \<and>
         bySlug del e slug (Some u) flds w =
           (Inl (ValidationError 422 [''not owned by user''] ''article''), w)"
proof -
  note l = load_Inr[OF assms(1-3), of "Some u" flds]
  from load_author_id[OF l assms(2)] assms(4)
  have "state_user (projr (load slug (Some u) flds w)) = Some u"
    and "author_id (projr (load slug (Some u) flds w))
           (params_article (projr (load slug (Some u) flds w))) \<noteq> Some (u_id u)"
    by (auto simp: l)
  from not_owned_handlers[OF this] show ?thesis
    by (simp add: bySlug_def l not_owned_def)
qed

theorem non_author_rejected_witness:
  "bySlug put sample_env ''hello'' (Some bob) no_fields sample_world =
     (Inl (ValidationError 422 [''not owned by user''] ''article''), sample_world) \<and>
   bySlug del sample_env ''hello'' (Some bob) no_fields sample_world =
     (Inl (ValidationError 422 [''not owned by user''] ''article''), sample_world)"
proof -
  have 1: "''hello'' \<noteq> []" by simp
  have 2: "find (\<lambda>r. a_slug r = ''hello'') (articles sample_world) = Some hello"
    by (simp add: sample_defs)
  have 3: "find (\<lambda>x. u_id x = a_author hello) (users sample_world) = Some alice"
    by (simp add: sample_defs)
  have 4: "a_author hello \<noteq> u_id bob"
    by (simp add: sample_defs)
  from non_author_rejected[OF 1 2 3 4] show ?thesis .
qed

subsection \<open>Deleting an article\<close>

lemma del_Inr:
  assumes "del e c w = (Inr c', w')"
  shows "\<exists>u. state_user c = Some u \<and> author_id c (params_article c) = Some (u_id u) \<and>
    issue_all e [DeleteFavorites (u_id u) (o_id (params_article c)),
                     DeleteArticleTags (o_id (params_article c)),
                     DeleteArticle (o_id (params_article c))] w = (None, w')"
  using assms by (auto simp: del_def split: option.splits if_splits prod.splits)

lemma del_world:
  assumes "del e c w = (Inr c', w')" "state_user c = Some u"
  shows "articles w' = filter (\<lambda>r. a_id r \<noteq> o_id (params_article c)) (articles w) \<and>
     articles_tags w' = filter (\<lambda>r. at_article r \<noteq> o_id (params_article c)) (articles_tags w) \<and>
     favorites w' = filter (\<lambda>r. \<not> (fv_user r = u_id u \<and> fv_article r = o_id (params_article c))) (favorites w)"
proof -
  from del_Inr[OF assms(1)] assms(2)
  have "issue_all e [DeleteFavorites (u_id u) (o_id (params_article c)),
                     DeleteArticleTags (o_id (params_article c)),
                     DeleteArticle (o_id (params_article c))] w = (None, w')" by auto
  from issue_all3[OF this] obtain w1 w2 where
    1: "issue e (DeleteFavorites (u_id u) (o_id (params_article c))) w = (None, w1)" and
    2: "issue e (DeleteArticleTags (o_id (params_article c))) w1 = (None, w2)" and
    3: "issue e (DeleteArticle (o_id (params_article c))) w2 = (None, w')" by blast
  show ?thesis
    using issue_DeleteFavorites[OF 1] issue_DeleteArticleTags[OF 2] issue_DeleteArticle[OF 3]
    by simp
qed

text \<open>
  C1, as the claim has it, fails: Alice deletes her article, which Bob has favorited, and
  Bob's Favorite row for the article is still in the store.
\<close>

theorem del_keeps_favorites_of_others:
  "map_sum id ctx_body (fst alice_deletes) = Inr (Some EmptyObject) \<and>
   map fv_user (filter (\<lambda>f. fv_article f = ''a1'') (favorites (snd alice_deletes))) =
     [''u2'']"
  by (simp add: alice_deletes_def bySlug_def load_defs sample_defs del_def author_id_def
      issue_def delete_author_id_def)

text \<open>
  C1, amended. After a successful delete by the author, no Article row with the id of the
  article, no ArticleTag row referencing it and no Favorite row of the caller referencing
  it remains; the Favorite rows other users hold for the article are the ones from before.
\<close>

theorem del_removes:
  assumes "find (\<lambda>r. a_slug r = slug) (articles w) = Some row"
    and "bySlug del e slug (Some u) flds w = (Inr c', w')"
  shows "filter (\<lambda>r. a_id r = a_id row) (articles w') = [] \<and>
         filter (\<lambda>r. at_article r = a_id row) (articles_tags w') = [] \<and>
         filter (\<lambda>f. fv_article f = a_id row \<and> fv_user f = u_id u) (favorites w') = [] \<and>
         filter (\<lambda>f. fv_article f = a_id row \<and> fv_user f \<noteq> u_id u) (favorites w') =
           filter (\<lambda>f. fv_article f = a_id row \<and> fv_user f \<noteq> u_id u) (favorites w)"
proof -
  from bySlug_Inr[OF assms(2)] obtain c c0 where
    l: "load slug (Some u) flds w = Inr c" and d: "del e c w = (Inr c0, w')" by blast
  from load_author_id[OF l assms(1)] have u: "state_user c = Some u"
    and i: "o_id (params_article c) = a_id row" by auto
  from del_world[OF d u] show ?thesis
    by (auto simp: i filter_empty_conv intro: filter_cong)
qed

theorem del_removes_witness:
  "\<not> isl (fst alice_deletes) \<and>
   filter (\<lambda>r. a_id r = a_id hello) (articles (snd alice_deletes)) = [] \<and>
   filter (\<lambda>r. at_article r = a_id hello) (articles_tags (snd alice_deletes)) = [] \<and>
   filter (\<lambda>f. fv_article f = a_id hello \<and> fv_user f = u_id alice)
     (favorites (snd alice_deletes)) = [] \<and>
   filter (\<lambda>f. fv_article f = a_id hello \<and> fv_user f \<noteq> u_id alice)
     (favorites (snd alice_deletes)) =
   filter (\<lambda>f. fv_article f = a_id hello \<and> fv_user f \<noteq> u_id alice)
     (favorites sample_world)"
proof -
  have 1: "find (\<lambda>r. a_slug r = ''hello'') (articles sample_world) = Some hello"
    by (simp add: sample_defs)
  have 2: "\<not> isl (fst alice_deletes)"
    by (simp add: alice_deletes_def bySlug_def load_defs sample_defs del_def author_id_def
        issue_def delete_author_id_def)
  from del_removes[OF 1 pair_Inr[OF 2, unfolded alice_deletes_def], folded alice_deletes_def] 2
  show ?thesis by simp
qed

subsection \<open>Favoriting and unfavoriting\<close>

lemma favorite_post_noop:
  "o_favorited (params_article c) \<Longrightarrow>
     favorite_post e c w = (Inr (c\<lparr>ctx_body := Some (OneArticle (params_article c))\<rparr>), w)"
  by (simp add: favorite_post_def)

lemma favorite_del_noop:
  "\<not> o_favorited (params_article c) \<Longrightarrow>
     favorite_del e c w = (Inr (c\<lparr>ctx_body := Some (OneArticle (params_article c))\<rparr>), w)"
  by (simp add: favorite_del_def)

lemma favorite_post_fresh:
  assumes "\<not> o_favorited (params_article c)" "favorite_post e c w = (Inr c', w')"
  shows "\<exists>u. state_user c = Some u \<and>
     favorites w' = favorites w @ [\<lparr>fv_id = uuid_of e (uuid_count w), fv_user = u_id u,
                                    fv_article = o_id (params_article c)\<rparr>] \<and>
     articles w' = map (\<lambda>r. if a_id r = o_id (params_article c)
                        then r\<lparr>a_favorites_count := a_favorites_count r + 1\<rparr> else r) (articles w) \<and>
     users w' = users w \<and> tags w' = tags w \<and> articles_tags w' = articles_tags w \<and>
     followers w' = followers w \<and>
     c' = c\<lparr>params_article := (params_article c)\<lparr>o_favorited := True,
                 o_favorites_count := o_favorites_count (params_article c) + 1\<rparr>,
            ctx_body := Some (OneArticle ((params_article c)\<lparr>o_favorited := True,
                 o_favorites_count := o_favorites_count (params_article c) + 1\<rparr>))\<rparr>"
proof -
  from assms obtain u w1 where u: "state_user c = Some u"
    and a: "issue_all e [InsertFavorite \<lparr>fv_id = uuid_of e (uuid_count w), fv_user = u_id u,
                fv_article = o_id (params_article c)\<rparr>,
              IncrementFavorites (o_id (params_article c))] (w\<lparr>uuid_count := Suc (uuid_count w)\<rparr>) = (None, w')"
    and c': "c' = c\<lparr>params_article := (params_article c)\<lparr>o_favorited := True,
                 o_favorites_count := o_favorites_count (params_article c) + 1\<rparr>,
            ctx_body := Some (OneArticle ((params_article c)\<lparr>o_favorited := True,
                 o_favorites_count := o_favorites_count (params_article c) + 1\<rparr>))\<rparr>"
    by (auto simp: favorite_post_def uuid_def Let_def split: option.splits prod.splits)
  from issue_all2[OF a] obtain w2 where
    1: "issue e (InsertFavorite \<lparr>fv_id = uuid_of e (uuid_count w), fv_user = u_id u,
                fv_article = o_id (params_article c)\<rparr>) (w\<lparr>uuid_count := Suc (uuid_count w)\<rparr>) = (None, w2)"
    and 2: "issue e (IncrementFavorites (o_id (params_article c))) w2 = (None, w')" by blast
  show ?thesis
    using issue_InsertFavorite[OF 1] issue_IncrementFavorites[OF 2] u c' by simp
qed

lemma favorite_del_fresh:
  assumes "o_favorited (params_article c)" "favorite_del e c w = (Inr c', w')"
  shows "\<exists>u. state_user c = Some u \<and>
     favorites w' = filter (\<lambda>r. \<not> (fv_user r = u_id u \<and> fv_article r = o_id (params_article c)))
                      (favorites w) \<and>
     articles w' = map (\<lambda>r. if a_id r = o_id (params_article c)
                        then r\<lparr>a_favorites_count := a_favorites_count r - 1\<rparr> else r) (articles w) \<and>
     users w' = users w \<and> tags w' = tags w \<and> articles_tags w' = articles_tags w \<and>
     followers w' = followers w \<and>
     c' = c\<lparr>params_article := (params_article c)\<lparr>o_favorited := False,
                 o_favorites_count := o_favorites_count (params_article c) - 1\<rparr>,
            ctx_body := Some (OneArticle ((params_article c)\<lparr>o_favorited := False,
                 o_favorites_count := o_favorites_count (params_article c) - 1\<rparr>))\<rparr>"
proof -
  from assms obtain u where u: "state_user c = Some u"
    and a: "issue_all e [DeleteFavorites (u_id u) (o_id (params_article c)),
              DecrementFavorites (o_id (params_article c))] w = (None, w')"
    and c': "c' = c\<lparr>params_article := (params_article c)\<lparr>o_favorited := False,
                 o_favorites_count := o_favorites_count (params_article c) - 1\<rparr>,
            ctx_body := Some (OneArticle ((params_article c)\<lparr>o_favorited := False,
                 o_favorites_count := o_favorites_count (params_article c) - 1\<rparr>))\<rparr>"
    by (auto simp: favorite_del_def Let_def split: option.splits prod.splits)
  from issue_all2[OF a] obtain w2 where
    1: "issue e (DeleteFavorites (u_id u) (o_id (params_article c))) w = (None, w2)"
    and 2: "issue e (DecrementFavorites (o_id (params_article c))) w2 = (None, w')" by blast
  show ?thesis
    using issue_DeleteFavorites[OF 1] issue_DecrementFavorites[OF 2] u c' by simp
qed

lemma respond_favorite_post_twice:
  assumes "bySlug favorite_post e slug (Some u) flds w = (Inr c1, w1)"
  shows "\<exists>c2. bySlug favorite_post e slug (Some u) flds w1 = (Inr c2, w1) \<and> respond c2 = respond c1"
proof -
  from bySlug_Inr[OF assms] obtain c c0 where
    l: "load slug (Some u) flds w = Inr c" and f: "favorite_post e c w = (Inr c0, w1)"
    and c1: "c1 = delete_author_id c0" by blast
  from load_found[OF l] obtain row au where
    s: "slug \<noteq> []" and r: "find (\<lambda>r. a_slug r = slug) (articles w) = Some row"
    and a: "find (\<lambda>x. u_id x = a_author row) (users w) = Some au"
    and c: "c = \<lparr>state_user = Some u,
                    params_article =
                      (article_of_row row (tagList_of w row))
                        \<lparr>o_favorited := (own_favorites w (Some u) row \<noteq> [])\<rparr>,
                    params_author = author_of_row au (is_following w (Some u) au),
                    params_favorites = own_favorites w (Some u) row,
                    params_tagList = tagList_of w row,
                    params_tagsRelations = relations_of w row,
                    request_article = flds,
                    ctx_body = None\<rparr>" by blast
  show ?thesis
  proof (cases "o_favorited (params_article c)")
    case True
    with f favorite_post_noop[OF True, of e w] have "w1 = w" by simp
    with assms show ?thesis by auto
  next
    case False
    from favorite_post_fresh[OF False f] c
    have fav: "favorites w1 = favorites w @ [\<lparr>fv_id = uuid_of e (uuid_count w), fv_user = u_id u,
                                    fv_article = a_id row\<rparr>]"
      and art: "articles w1 = map (\<lambda>r. if a_id r = a_id row
                        then r\<lparr>a_favorites_count := a_favorites_count r + 1\<rparr> else r) (articles w)"
      and rest: "users w1 = users w" "tags w1 = tags w" "articles_tags w1 = articles_tags w"
         "followers w1 = followers w"
      and c0: "c0 = c\<lparr>params_article := (params_article c)\<lparr>o_favorited := True,
                 o_favorites_count := o_favorites_count (params_article c) + 1\<rparr>,
            ctx_body := Some (OneArticle ((params_article c)\<lparr>o_favorited := True,
                 o_favorites_count := o_favorites_count (params_article c) + 1\<rparr>))\<rparr>"
      by (auto simp: article_of_row_def)
    let ?row = "row\<lparr>a_favorites_count := a_favorites_count row + 1\<rparr>"
    have r1: "find (\<lambda>r. a_slug r = slug) (articles w1) = Some ?row"
      using r by (simp add: art find_map if_distrib[of a_slug] cong: if_cong)
    have a1: "find (\<lambda>x. u_id x = a_author ?row) (users w1) = Some au"
      using a by (simp add: rest)
    have t1: "tagList_of w1 ?row = tagList_of w row"
      by (rule tagList_of_cong) (simp_all add: rest)
    have o1: "own_favorites w1 (Some u) ?row \<noteq> []"
      by (simp add: own_favorites_def fav)
    have i1: "is_following w1 (Some u) au = is_following w (Some u) au"
      by (simp add: is_following_def rest)
    note l1 = load_Inr[OF s r1 a1, of "Some u" flds]
    show ?thesis
      apply (simp add: bySlug_def l1 favorite_post_def o1 t1 i1 c1 c0 c Let_def)
      apply (simp add: respond_def delete_author_id_def settle_def article_of_row_def Let_def)
      done
  qed
qed

lemma respond_favorite_del_twice:
  assumes "bySlug favorite_del e slug (Some u) flds w = (Inr c1, w1)"
  shows "\<exists>c2. bySlug favorite_del e slug (Some u) flds w1 = (Inr c2, w1) \<and> respond c2 = respond c1"
proof -
  from bySlug_Inr[OF assms] obtain c c0 where
    l: "load slug (Some u) flds w = Inr c" and f: "favorite_del e c w = (Inr c0, w1)"
    and c1: "c1 = delete_author_id c0" by blast
  from load_found[OF l] obtain row au where
    s: "slug \<noteq> []" and r: "find (\<lambda>r. a_slug r = slug) (articles w) = Some row"
    and a: "find (\<lambda>x. u_id x = a_author row) (users w) = Some au"
    and c: "c = \<lparr>state_user = Some u,
                    params_article =
                      (article_of_row row (tagList_of w row))
                        \<lparr>o_favorited := (own_favorites w (Some u) row \<noteq> [])\<rparr>,
                    params_author = author_of_row au (is_following w (Some u) au),
                    params_favorites = own_favorites w (Some u) row,
                    params_tagList = tagList_of w row,
                    params_tagsRelations = relations_of w row,
                    request_article = flds,
                    ctx_body = None\<rparr>" by blast
  show ?thesis
  proof (cases "o_favorited (params_article c)")
    case False
    with f favorite_del_noop[OF False, of e w] have "w1 = w" by simp
    with assms show ?thesis by auto
  next
    case True
    from favorite_del_fresh[OF True f] c
    have fav: "favorites w1 = filter (\<lambda>r. \<not> (fv_user r = u_id u \<and> fv_article r = a_id row))
                      (favorites w)"
      and art: "articles w1 = map (\<lambda>r. if a_id r = a_id row
                        then r\<lparr>a_favorites_count := a_favorites_count r - 1\<rparr> else r) (articles w)"
      and rest: "users w1 = users w" "tags w1 = tags w" "articles_tags w1 = articles_tags w"
         "followers w1 = followers w"
      and c0: "c0 = c\<lparr>params_article := (params_article c)\<lparr>o_favorited := False,
                 o_favorites_count := o_favorites_count (params_article c) - 1\<rparr>,
            ctx_body := Some (OneArticle ((params_article c)\<lparr>o_favorited := False,
                 o_favorites_count := o_favorites_count (params_article c) - 1\<rparr>))\<rparr>"
      by (auto simp: article_of_row_def)
    let ?row = "row\<lparr>a_favorites_count := a_favorites_count row - 1\<rparr>"
    have r1: "find (\<lambda>r. a_slug r = slug) (articles w1) = Some ?row"
      using r by (simp add: art find_map if_distrib[of a_slug] cong: if_cong)
    have a1: "find (\<lambda>x. u_id x = a_author ?row) (users w1) = Some au"
      using a by (simp add: rest)
    have t1: "tagList_of w1 ?row = tagList_of w row"
      by (rule tagList_of_cong) (simp_all add: rest)
    have o1: "own_favorites w1 (Some u) ?row = []"
      by (simp add: own_favorites_def fav filter_empty_conv)
    have i1: "is_following w1 (Some u) au = is_following w (Some u) au"
      by (simp add: is_following_def rest)
    note l1 = load_Inr[OF s r1 a1, of "Some u" flds]
    show ?thesis
      apply (simp add: bySlug_def l1 favorite_del_def o1 t1 i1 c1 c0 c Let_def)
      apply (simp add: respond_def delete_author_id_def settle_def article_of_row_def Let_def)
      done
  qed
qed

text \<open>
  C3. A favorite of an article the caller has favorited, and an unfavorite of one the caller
  has not, return the article as it is and leave the state as it was, with no statement
  issued. A request that succeeded, made once more, leaves the state the first one left
  and gives the same response.
\<close>

theorem favorite_idempotent:
  "(o_favorited (params_article c) \<longrightarrow>
      favorite_post e c w = (Inr (c\<lparr>ctx_body := Some (OneArticle (params_article c))\<rparr>), w)) \<and>
   (\<not> o_favorited (params_article c') \<longrightarrow>
      favorite_del e c' w = (Inr (c'\<lparr>ctx_body := Some (OneArticle (params_article c'))\<rparr>), w)) \<and>
   (bySlug favorite_post e slug (Some u) flds w = (Inr c1, w1) \<longrightarrow>
      (\<exists>c2. bySlug favorite_post e slug (Some u) flds w1 = (Inr c2, w1) \<and>
            respond c2 = respond c1)) \<and>
   (bySlug favorite_del e slug (Some u') flds w = (Inr d1, v1) \<longrightarrow>
      (\<exists>d2. bySlug favorite_del e slug (Some u') flds v1 = (Inr d2, v1) \<and>
            respond d2 = respond d1))"
proof (intro conjI impI)
  assume "o_favorited (params_article c)"
  then show "favorite_post e c w =
      (Inr (c\<lparr>ctx_body := Some (OneArticle (params_article c))\<rparr>), w)"
    by (rule favorite_post_noop)
next
  assume "\<not> o_favorited (params_article c')"
  then show "favorite_del e c' w =
      (Inr (c'\<lparr>ctx_body := Some (OneArticle (params_article c'))\<rparr>), w)"
    by (rule favorite_del_noop)
next
  assume "bySlug favorite_post e slug (Some u) flds w = (Inr c1, w1)"
  then show "\<exists>c2. bySlug favorite_post e slug (Some u) flds w1 = (Inr c2, w1) \<and>
      respond c2 = respond c1"
    by (rule respond_favorite_post_twice)
next
  assume "bySlug favorite_del e slug (Some u') flds w = (Inr d1, v1)"
  then show "\<exists>d2. bySlug favorite_del e slug (Some u') flds v1 = (Inr d2, v1) \<and>
      respond d2 = respond d1"
    by (rule respond_favorite_del_twice)
qed

theorem favorite_idempotent_witness:
  "o_favorited (params_article bob_loads) \<and>
   favorite_post sample_env bob_loads sample_world =
     (Inr (bob_loads\<lparr>ctx_body := Some (OneArticle (params_article bob_loads))\<rparr>),
      sample_world) \<and>
   \<not> o_favorited (params_article alice_loads) \<and>
   favorite_del sample_env alice_loads sample_world =
     (Inr (alice_loads\<lparr>ctx_body := Some (OneArticle (params_article alice_loads))\<rparr>),
      sample_world) \<and>
   \<not> isl (fst alice_favorites) \<and>
   (\<exists>c2. bySlug favorite_post sample_env ''hello'' (Some alice) no_fields
            (snd alice_favorites) = (Inr c2, snd alice_favorites) \<and>
         respond c2 = respond (projr (fst alice_favorites))) \<and>
   \<not> isl (fst bob_unfavorites) \<and>
   (\<exists>d2. bySlug favorite_del sample_env ''hello'' (Some bob) no_fields
            (snd bob_unfavorites) = (Inr d2, snd bob_unfavorites) \<and>
         respond d2 = respond (projr (fst bob_unfavorites)))"
proof -
  have 1: "o_favorited (params_article bob_loads)"
    by (simp add: bob_loads_def load_defs sample_defs)
  have 2: "\<not> o_favorited (params_article alice_loads)"
    by (simp add: alice_loads_def load_defs sample_defs)
  have 3: "\<not> isl (fst alice_favorites)"
    by (simp add: alice_favorites_def bySlug_def load_defs sample_defs favorite_post_def
        uuid_def issue_def Let_def)
  have 4: "\<not> isl (fst bob_unfavorites)"
    by (simp add: bob_unfavorites_def bySlug_def load_defs sample_defs favorite_del_def
        issue_def Let_def)
  note t = favorite_idempotent[of bob_loads sample_env sample_world alice_loads
      "''hello''" alice no_fields "projr (fst alice_favorites)" "snd alice_favorites"
      bob "projr (fst bob_unfavorites)" "snd bob_unfavorites"]
  from t 1 have a: "favorite_post sample_env bob_loads sample_world =
     (Inr (bob_loads\<lparr>ctx_body := Some (OneArticle (params_article bob_loads))\<rparr>),
      sample_world)" by blast
  from t 2 have b: "favorite_del sample_env alice_loads sample_world =
     (Inr (alice_loads\<lparr>ctx_body := Some (OneArticle (params_article alice_loads))\<rparr>),
      sample_world)" by blast
  from t pair_Inr[OF 3, unfolded alice_favorites_def]
  have c: "\<exists>c2. bySlug favorite_post sample_env ''hello'' (Some alice) no_fields
            (snd alice_favorites) = (Inr c2, snd alice_favorites) \<and>
         respond c2 = respond (projr (fst alice_favorites))"
    unfolding alice_favorites_def by blast
  from t pair_Inr[OF 4, unfolded bob_unfavorites_def]
  have d: "\<exists>d2. bySlug favorite_del sample_env ''hello'' (Some bob) no_fields
            (snd bob_unfavorites) = (Inr d2, snd bob_unfavorites) \<and>
         respond d2 = respond (projr (fst bob_unfavorites))"
    unfolding bob_unfavorites_def by blast
  from 1 2 3 4 a b c d show ?thesis by blast
qed

subsection \<open>Updating an article\<close>

lemma issue_tag_stmt_articles:
  "issue e s w = (r, w') \<Longrightarrow> tag_stmt s \<Longrightarrow> articles w' = articles w"
  by (cases s) (auto simp: tag_stmt_def issue_def Let_def split: option.splits if_splits)

lemma filter_map_other:
  "(\<And>x. P (f x) = P x) \<Longrightarrow> (\<And>x. P x \<Longrightarrow> f x = x) \<Longrightarrow> filter P (map f xs) = filter P xs"
  by (induction xs) auto

lemma issue_update_kept:
  "issue e (UpdateArticle i up) w = (r, w') \<Longrightarrow>
     map kept (articles w') = map kept (articles w) \<and>
     filter (\<lambda>r. a_id r \<noteq> i) (articles w') = filter (\<lambda>r. a_id r \<noteq> i) (articles w)"
  by (auto simp: issue_def Let_def kept_def write_article_def split: option.splits if_splits
      intro!: filter_map_other)

lemma retry_update_kept:
  assumes "write_with_retry e (\<lambda>a. UpdateArticle i (f a)) a w = (r, w')"
  shows "map kept (articles w') = map kept (articles w) \<and>
     filter (\<lambda>r. a_id r \<noteq> i) (articles w') = filter (\<lambda>r. a_id r \<noteq> i) (articles w)"
proof (cases "issue e (UpdateArticle i (f a)) w")
  case (Pair r1 w1)
  note 1 = issue_update_kept[OF Pair]
  show ?thesis
  proof (cases "\<exists>err. r1 = Some err \<and> unique_violation err")
    case False
    with assms Pair have "w' = w1"
      by (auto simp: write_with_retry_def split: option.splits if_splits)
    with 1 show ?thesis by simp
  next
    case True
    then obtain err where e: "r1 = Some err" "unique_violation err" by blast
    let ?w2 = "w1\<lparr>uuid_count := Suc (uuid_count w1)\<rparr>"
    let ?a = "a\<lparr>d_slug := with_suffix (d_slug a) (uuid_of e (uuid_count w1))\<rparr>"
    obtain r3 w3 where 3: "issue e (UpdateArticle i (f ?a)) ?w2 = (r3, w3)"
      by (cases "issue e (UpdateArticle i (f ?a)) ?w2") auto
    with assms Pair e have "w' = w3"
      by (auto simp: write_with_retry_def uuid_def Let_def split: option.splits)
    with issue_update_kept[OF 3] 1 show ?thesis by simp
  qed
qed

lemma insert_tags_articles:
  "insert_tags e ts w = (r, w') \<Longrightarrow> articles w' = articles w"
proof (induction ts arbitrary: w)
  case Nil
  then show ?case by simp
next
  case (Cons t ts)
  obtain r1 w1 where 1: "issue e (InsertTag t) w = (r1, w1)"
    by (cases "issue e (InsertTag t) w") auto
  from issue_tag_stmt_articles[OF 1] have a: "articles w1 = articles w"
    by (simp add: tag_stmt_def)
  from Cons.prems 1 have "w' = w1 \<or> insert_tags e ts w1 = (r, w')"
    by (auto split: option.splits if_splits)
  with Cons.IH[of w1] a show ?case by auto
qed

lemma new_tags_articles:
  "new_tags e ns w = (ts, w') \<Longrightarrow> articles w' = articles w"
  by (induction ns arbitrary: w ts) (auto simp: uuid_def split: prod.splits)

lemma new_relations_articles:
  "new_relations e a ts w = (rs, w') \<Longrightarrow> articles w' = articles w"
  by (induction ts arbitrary: w rs) (auto simp: uuid_def split: prod.splits)

lemma store_tags_articles:
  assumes "store_tags e a ts w = (r, w')"
  shows "articles w' = articles w"
proof -
  obtain r1 w1 where 1: "insert_tags e ts w = (r1, w1)" by (cases "insert_tags e ts w") auto
  obtain rs w2 where 2: "new_relations e a (tags_named (map t_name ts) w1) w1 = (rs, w2)"
    by (cases "new_relations e a (tags_named (map t_name ts) w1) w1") auto
  obtain r3 w3 where 3: "issue e (InsertArticleTags rs) w2 = (r3, w3)"
    by (cases "issue e (InsertArticleTags rs) w2") auto
  from assms 1 2 3 have "w' = w1 \<or> w' = w3"
    by (auto simp: store_tags_def split: option.splits)
  with insert_tags_articles[OF 1] new_relations_articles[OF 2] issue_tag_stmt_articles[OF 3]
  show ?thesis by (auto simp: tag_stmt_def)
qed

lemma put_tags_articles:
  assumes "put_tags e x flds n w = (r, w')"
  shows "articles w' = articles w"
proof -
  obtain r1 w1 where 1: "issue e (DeleteArticleTags (o_id x)) w = (r1, w1)"
    by (cases "issue e (DeleteArticleTags (o_id x)) w") auto
  obtain ts0 w2 where 2: "new_tags e (d_tagList n) w1 = (ts0, w2)"
    by (cases "new_tags e (d_tagList n) w1") auto
  have a1: "articles w1 = articles w"
    using issue_tag_stmt_articles[OF 1] by (simp add: tag_stmt_def)
  have a2: "articles w2 = articles w"
    using new_tags_articles[OF 2] a1 by simp
  from assms 1 2 have "w' = w \<or> w' = w1 \<or> w' = w2 \<or>
      (\<exists>ts. store_tags e (o_id x) ts w2 = (r, w'))"
    by (auto simp: put_tags_def split: option.splits list.splits if_splits sum.splits)
  with a1 a2 store_tags_articles show ?thesis by metis
qed

lemma put_steps:
  assumes "put e c w = (r, w')"
  shows "w' = w \<or> (\<exists>n2 rr w1.
     write_with_retry e (\<lambda>a. UpdateArticle (o_id (params_article c)) (update_cols a)) n2 w = (rr, w1) \<and>
     (w' = w1 \<or> (\<exists>n3 r2. put_tags e (params_article c) (request_article c) n3 w1 = (r2, w'))))"
proof (cases "state_user c")
  case None
  with assms show ?thesis by (simp add: put_def Let_def)
next
  case (Some u)
  show ?thesis
  proof (cases "author_id c (params_article c) \<noteq> Some (u_id u)")
    case True
    with assms Some show ?thesis by (simp add: put_def Let_def)
  next
    case False
    show ?thesis
    proof (cases "article_schema e (assign c (params_article c) (request_article c))")
      case (Inl f)
      with assms Some False show ?thesis by (simp add: put_def Let_def)
    next
      case (Inr n0)
      define n2 where "n2 = (if af_title (request_article c) \<noteq> None \<and> af_title (request_article c) \<noteq> Some []
                           then n0\<lparr>d_slug := slugify e (d_title n0)\<rparr> else n0)\<lparr>d_updated_at := now e\<rparr>"
      obtain rr w1 where 1: "write_with_retry e
          (\<lambda>a. UpdateArticle (o_id (params_article c)) (update_cols a)) n2 w = (rr, w1)"
        by (cases "write_with_retry e
          (\<lambda>a. UpdateArticle (o_id (params_article c)) (update_cols a)) n2 w") auto
      show ?thesis
      proof (cases rr)
        case (Inl f)
        with assms Some False Inr 1 have "w' = w1"
          by (simp add: put_def Let_def n2_def)
        with 1 show ?thesis by blast
      next
        case n3: (Inr n3)
        obtain r2 w2 where 2: "put_tags e (params_article c) (request_article c) n3 w1 = (r2, w2)"
          by (cases "put_tags e (params_article c) (request_article c) n3 w1") auto
        with assms Some False Inr 1 n3 have "w' = w2"
          by (cases r2) (simp_all add: put_def Let_def n2_def)
        with 1 2 show ?thesis by blast
      qed
    qed
  qed
qed

lemma put_articles:
  assumes "put e c w = (r, w')"
  shows "map kept (articles w') = map kept (articles w) \<and>
     filter (\<lambda>r. a_id r \<noteq> o_id (params_article c)) (articles w') =
     filter (\<lambda>r. a_id r \<noteq> o_id (params_article c)) (articles w)"
proof (cases "w' = w")
  case True
  then show ?thesis by simp
next
  case False
  with put_steps[OF assms] obtain n2 rr w1 where
    1: "write_with_retry e (\<lambda>a. UpdateArticle (o_id (params_article c)) (update_cols a)) n2 w = (rr, w1)"
    and 2: "w' = w1 \<or> (\<exists>n3 r2. put_tags e (params_article c) (request_article c) n3 w1 = (r2, w'))"
    by blast
  from 2 put_tags_articles have "articles w' = articles w1" by auto
  with retry_update_kept[OF 1] show ?thesis by simp
qed

lemma violation_recognised: "unique_violation (violation g)"
  by (cases g) (simp_all add: unique_violation_def violation_def parseInt_str_def is_space_def
      digit_val_def)

lemmas put_defs =
  put_def put_tags_def write_with_retry_def assign_def update_cols_def obj_of_doc_def
  author_id_def sample_schema_def issue_def uuid_def store_tags_def tags_named_def
  difference_def delete_author_id_def write_article_def with_suffix_def substr_last_def
  violation_recognised decimal.simps digit_char_def

text \<open>
  C10. Whatever the request carries and however the update ends, the rows of the table
  \<^verbatim>\<open>articles\<close> have afterwards the id, author, favorites counter and creation time they
  had before, and every row but those of the target article is as it was.
\<close>

theorem put_writes_five_columns:
  assumes "bySlug put e slug user flds w = (r, w')"
  shows "map kept (articles w') = map kept (articles w) \<and>
     (find (\<lambda>r. a_slug r = slug) (articles w) = Some row \<longrightarrow>
        filter (\<lambda>r. a_id r \<noteq> a_id row) (articles w') =
        filter (\<lambda>r. a_id r \<noteq> a_id row) (articles w))"
proof (cases "load slug user flds w")
  case (Inl f)
  with assms have "w' = w" by (simp add: bySlug_def)
  then show ?thesis by simp
next
  case (Inr c)
  obtain r0 where p: "put e c w = (r0, w')"
    using assms Inr by (cases "put e c w") (auto simp: bySlug_def split: sum.splits)
  have "find (\<lambda>r. a_slug r = slug) (articles w) = Some row \<Longrightarrow> o_id (params_article c) = a_id row"
    using load_author_id[OF Inr] by simp
  with put_articles[OF p] show ?thesis by auto
qed

theorem put_writes_five_columns_witness:
  "\<not> isl (fst alice_retitles) \<and>
   map a_title (articles (snd alice_retitles)) = [''salve'', ''notes''] \<and>
   map kept (articles (snd alice_retitles)) = map kept (articles sample_world) \<and>
   filter (\<lambda>r. a_id r \<noteq> a_id hello) (articles (snd alice_retitles)) =
     filter (\<lambda>r. a_id r \<noteq> a_id hello) (articles sample_world)"
proof -
  have 1: "\<not> isl (fst alice_retitles)"
    by (simp add: alice_retitles_def bySlug_def load_defs sample_defs put_defs Let_def
        del: set_filter set_map)
  have 2: "map a_title (articles (snd alice_retitles)) = [''salve'', ''notes'']"
    by (simp add: alice_retitles_def bySlug_def load_defs sample_defs put_defs Let_def
        del: set_filter set_map)
  have 3: "find (\<lambda>r. a_slug r = ''hello'') (articles sample_world) = Some hello"
    by (simp add: sample_defs)
  from put_writes_five_columns[OF pair_Inr[OF 1, unfolded alice_retitles_def],
      folded alice_retitles_def, of hello] 1 2 3
  show ?thesis by blast
qed

text \<open>
  C2 does not hold of the code. Alice's article has the tag list ["lorem"]; she updates it
  with the tag list ["lorem"]. The handler issues the delete of the article's ArticleTag
  rows and inserts them again, under a new id: \<^verbatim>\<open>_.difference\<close> is called with one argument
  and returns the list it was given, so the test is true of every non-empty list.
\<close>

theorem put_same_tags_replaces:
  "\<not> isl (fst alice_retags) \<and>
   o_tagList (params_article alice_loads) = [''lorem''] \<and>
   issued (snd alice_retags) =
     [UpdateArticle ''a1''
        \<lparr>up_title = ''hello'', up_slug = ''hello'', up_body = ''text'',
         up_description = ''greeting'', up_updated_at = 9\<rparr>,
      DeleteArticleTags ''a1'',
      InsertTag \<lparr>t_id = ''0f8fad5b-d9cb-0'', t_name = ''lorem''\<rparr>,
      InsertArticleTags
        [\<lparr>at_id = ''0f8fad5b-d9cb-1'', at_article = ''a1'', at_tag = ''t1''\<rparr>]] \<and>
   filter (\<lambda>r. at_article r = ''a1'') (articles_tags sample_world) =
     [\<lparr>at_id = ''r1'', at_article = ''a1'', at_tag = ''t1''\<rparr>] \<and>
   filter (\<lambda>r. at_article r = ''a1'') (articles_tags (snd alice_retags)) =
     [\<lparr>at_id = ''0f8fad5b-d9cb-1'', at_article = ''a1'', at_tag = ''t1''\<rparr>]"
proof -
  have 1: "\<not> isl (fst alice_retags)"
    by (simp add: alice_retags_def bySlug_def load_defs sample_defs put_defs Let_def
        del: set_filter set_map)
  have 2: "o_tagList (params_article alice_loads) = [''lorem'']"
    by (simp add: alice_loads_def load_defs sample_defs del: set_filter set_map)
  have 3: "issued (snd alice_retags) =
     [UpdateArticle ''a1''
        \<lparr>up_title = ''hello'', up_slug = ''hello'', up_body = ''text'',
         up_description = ''greeting'', up_updated_at = 9\<rparr>,
      DeleteArticleTags ''a1'',
      InsertTag \<lparr>t_id = ''0f8fad5b-d9cb-0'', t_name = ''lorem''\<rparr>,
      InsertArticleTags
        [\<lparr>at_id = ''0f8fad5b-d9cb-1'', at_article = ''a1'', at_tag = ''t1''\<rparr>]]"
    by (simp add: alice_retags_def bySlug_def load_defs sample_defs put_defs Let_def
        del: set_filter set_map)
  have 4: "filter (\<lambda>r. at_article r = ''a1'') (articles_tags sample_world) =
     [\<lparr>at_id = ''r1'', at_article = ''a1'', at_tag = ''t1''\<rparr>]"
    by (simp add: sample_defs)
  have 5: "filter (\<lambda>r. at_article r = ''a1'') (articles_tags (snd alice_retags)) =
     [\<lparr>at_id = ''0f8fad5b-d9cb-1'', at_article = ''a1'', at_tag = ''t1''\<rparr>]"
    by (simp add: alice_retags_def bySlug_def load_defs sample_defs put_defs Let_def
        del: set_filter set_map)
  from 1 2 3 4 5 show ?thesis by blast
qed

subsection \<open>Creating an article\<close>

lemma new_tags_world:
  "new_tags e ns w = (ts, w') \<Longrightarrow> w' = w\<lparr>uuid_count := uuid_count w + length ns\<rparr> \<and> map t_name ts = ns"
  by (induction ns arbitrary: w ts w') (fastforce simp: uuid_def split: prod.splits)+


lemma issue_issued: "issue e s w = (r, w') \<Longrightarrow> issued w' = issued w @ [s]"
  by (cases s) (auto simp: issue_def Let_def split: option.splits if_splits)

lemma issue_InsertArticle:
  "issue e (InsertArticle r) w = (res, w') \<Longrightarrow>
     tags w' = tags w \<and> articles_tags w' = articles_tags w \<and>
     (res = None \<longrightarrow> articles w' = articles w @ [r])"
  by (auto simp: issue_def Let_def split: option.splits if_splits)




lemma post_unfold:
  assumes "article_schema e
             (flds\<lparr>af_id := Some (uuid_of e (uuid_count w)), af_author := Some (u_id u)\<rparr>) = Inr a0"
    and "new_tags e (d_tagList a0) (w\<lparr>uuid_count := Suc (uuid_count w)\<rparr>) = (ts0, w2)"
    and "validate_tags e ts0 = Inr ts"
  shows "post e (Some u) flds w =
     (case write_with_retry e (\<lambda>a. InsertArticle (row_of_doc a))
             (a0\<lparr>d_slug := slugify e (d_title a0)\<rparr>) w2 of
        (Inl f, w3) \<Rightarrow> (Inl f, w3)
      | (Inr a2, w3) \<Rightarrow>
          (case (if ts \<noteq> [] then store_tags e (d_id a2) ts w3 else (None, w3)) of
             (Some f, w4) \<Rightarrow> (Inl f, w4)
           | (None, w4) \<Rightarrow>
               (Inr (OneArticle (obj_of_doc a2 False (AuthorObj (picked_author u)))), w4)))"
  using assms by (simp add: post_def uuid_def Let_def)

text \<open>
  C4. The article validated and its tags too, let the first insert of the article fail with
  the error \<open>err\<close>. When \<open>err\<close> is not a unique violation (neither its \<^verbatim>\<open>errno\<close> reads 19
  nor its \<^verbatim>\<open>code\<close> 23505), \<^verbatim>\<open>post\<close> fails with \<open>err\<close> and has issued that one statement.
  When it is, \<^verbatim>\<open>post\<close> issues the insert once more, with the slug followed by a dash and
  the last six characters of a new uuid, and no third one: an error of the second insert,
  whatever it is, is the failure of \<^verbatim>\<open>post\<close>; when the second insert is processed, the row
  with the new slug is in the store.
\<close>

theorem post_retries_once:
  assumes "article_schema e
             (flds\<lparr>af_id := Some (uuid_of e (uuid_count w)), af_author := Some (u_id u)\<rparr>) = Inr a0"
    and "new_tags e (d_tagList a0) (w\<lparr>uuid_count := Suc (uuid_count w)\<rparr>) = (ts0, w2)"
    and "validate_tags e ts0 = Inr ts"
    and "a1 = a0\<lparr>d_slug := slugify e (d_title a0)\<rparr>"
    and "issue e (InsertArticle (row_of_doc a1)) w2 = (Some err, w3)"
    and "a2 = a1\<lparr>d_slug := d_slug a1 @ ''-'' @ substr_last 6 (uuid_of e (uuid_count w3))\<rparr>"
    and "issue e (InsertArticle (row_of_doc a2)) (w3\<lparr>uuid_count := Suc (uuid_count w3)\<rparr>) = (res, w4)"
  shows "(parseInt (err_errno err) \<noteq> Some 19 \<and> parseInt (err_code err) \<noteq> Some 23505 \<longrightarrow>
            post e (Some u) flds w = (Inl (StoreError err), w3) \<and>
            issued w3 = issued w @ [InsertArticle (row_of_doc a1)]) \<and>
         (parseInt (err_errno err) = Some 19 \<or> parseInt (err_code err) = Some 23505 \<longrightarrow>
            issued w4 = issued w @ [InsertArticle (row_of_doc a1), InsertArticle (row_of_doc a2)] \<and>
            (\<forall>err'. res = Some err' \<longrightarrow> post e (Some u) flds w = (Inl (StoreError err'), w4)) \<and>
            (res = None \<longrightarrow> articles w4 = articles w @ [row_of_doc a2] \<and>
               (ts = [] \<longrightarrow> post e (Some u) flds w =
                  (Inr (OneArticle (obj_of_doc a2 False (AuthorObj (picked_author u)))), w4))))"
proof -
  note p = post_unfold[OF assms(1-3), folded assms(4)]
  from new_tags_world[OF assms(2)] have w2: "issued w2 = issued w" "articles w2 = articles w"
    by simp_all
  note i1 = issue_issued[OF assms(5)]
  note i2 = issue_issued[OF assms(7)]
  have a3: "articles w3 = articles w"
    using assms(5) w2 by (auto simp: issue_def Let_def split: option.splits if_splits)
  show ?thesis
  proof (intro conjI impI allI)
    assume "parseInt (err_errno err) \<noteq> Some 19 \<and> parseInt (err_code err) \<noteq> Some 23505"
    then have n: "\<not> unique_violation err" by (simp add: unique_violation_def)
    show "post e (Some u) flds w = (Inl (StoreError err), w3)"
      using n assms(5) by (simp add: p write_with_retry_def)
    show "issued w3 = issued w @ [InsertArticle (row_of_doc a1)]"
      using i1 w2 by simp
  next
    assume "parseInt (err_errno err) = Some 19 \<or> parseInt (err_code err) = Some 23505"
    then have v: "unique_violation err" by (simp add: unique_violation_def)
    have r: "write_with_retry e (\<lambda>a. InsertArticle (row_of_doc a)) a1 w2 =
       (case res of None \<Rightarrow> (Inr a2, w4) | Some err' \<Rightarrow> (Inl (StoreError err'), w4))"
      using v assms(5,7) by (simp add: write_with_retry_def uuid_def with_suffix_def assms(6) Let_def split: option.splits)
    show "issued w4 = issued w @ [InsertArticle (row_of_doc a1), InsertArticle (row_of_doc a2)]"
      using i1 i2 w2 by simp
    show "post e (Some u) flds w = (Inl (StoreError err'), w4)" if "res = Some err'" for err'
      using that by (simp add: p r)
    show "articles w4 = articles w @ [row_of_doc a2]" if "res = None"
      using that issue_InsertArticle[OF assms(7)] a3 by simp
    show "post e (Some u) flds w =
        (Inr (OneArticle (obj_of_doc a2 False (AuthorObj (picked_author u)))), w4)"
      if "res = None" "ts = []"
      using that by (simp add: p r)
  qed
qed

lemma not_recognised_lost:
  "parseInt (err_errno lost) \<noteq> Some 19 \<and> parseInt (err_code lost) \<noteq> Some 23505"
  by (simp add: lost_def parseInt_str_def is_space_def digit_val_def)

lemma recognised_pg:
  "parseInt (err_errno (violation Postgres)) = Some 19 \<or>
   parseInt (err_code (violation Postgres)) = Some 23505"
  by (simp add: violation_def parseInt_str_def is_space_def digit_val_def)

lemmas post_defs =
  sample_defs sample_schema_def decimal.simps digit_char_def hello_again_def draft_def
  uuid_def counted_def failing_at_def lost_def row_of_doc_def issue_def first_try_def
  second_try_def substr_last_def

lemma hello_again_prepared:
  assumes "e = sample_env \<or> e = failing_at k"
  shows "article_schema e
           (hello_again\<lparr>af_id := Some (uuid_of e (uuid_count sample_world)),
              af_author := Some (u_id bob)\<rparr>) = Inr draft"
    and "new_tags e (d_tagList draft)
           (sample_world\<lparr>uuid_count := Suc (uuid_count sample_world)\<rparr>) =
         ([], counted 1 sample_world)"
    and "validate_tags e [] = Inr []"
    and "draft\<lparr>d_slug := ''hello''\<rparr> = draft\<lparr>d_slug := slugify e (d_title draft)\<rparr>"
  using assms by (auto simp: post_defs)

lemma first_try_collides:
  "first_try sample_env = (Some (violation Postgres), snd (first_try sample_env))"
  "first_try (failing_at 1) = (Some (violation Postgres), snd (first_try (failing_at 1)))"
  by (simp_all add: post_defs Let_def prod_eq_iff del: set_filter set_map)

lemma first_try_lost:
  "first_try (failing_at 0) = (Some lost, snd (first_try (failing_at 0)))"
  by (simp add: post_defs Let_def prod_eq_iff del: set_filter set_map)

lemma second_try_stored: "second_try sample_env = (None, snd (second_try sample_env))"
  by (simp add: post_defs Let_def prod_eq_iff del: set_filter set_map)

lemma second_try_lost:
  "second_try (failing_at 1) = (Some lost, snd (second_try (failing_at 1)))"
  by (simp add: post_defs Let_def prod_eq_iff del: set_filter set_map)

lemma suffixed:
  assumes "e = sample_env \<or> e = failing_at k"
  shows "draft\<lparr>d_slug := ''hello-d9cb-1''\<rparr> =
     (draft\<lparr>d_slug := ''hello''\<rparr>)
       \<lparr>d_slug := d_slug (draft\<lparr>d_slug := ''hello''\<rparr>) @ ''-'' @
          substr_last 6 (uuid_of e (uuid_count (snd (first_try e))))\<rparr>"
  using assms
  by (auto simp add: post_defs Let_def prod_eq_iff simp del: set_filter set_map
      split: option.splits)

theorem post_retries_once_witness:
  "post (failing_at 0) (Some bob) hello_again sample_world =
     (Inl (StoreError lost), snd (first_try (failing_at 0))) \<and>
   issued (snd (first_try (failing_at 0))) =
     issued sample_world @ [InsertArticle (row_of_doc (draft\<lparr>d_slug := ''hello''\<rparr>))] \<and>
   fst (first_try (failing_at 1)) = Some (violation Postgres) \<and>
   post (failing_at 1) (Some bob) hello_again sample_world =
     (Inl (StoreError lost), snd (second_try (failing_at 1))) \<and>
   issued (snd (second_try (failing_at 1))) =
     issued sample_world @
       [InsertArticle (row_of_doc (draft\<lparr>d_slug := ''hello''\<rparr>)),
        InsertArticle (row_of_doc (draft\<lparr>d_slug := ''hello-d9cb-1''\<rparr>))] \<and>
   post sample_env (Some bob) hello_again sample_world =
     (Inr (OneArticle
        (obj_of_doc (draft\<lparr>d_slug := ''hello-d9cb-1''\<rparr>) False (AuthorObj (picked_author bob)))),
      snd (second_try sample_env)) \<and>
   articles (snd (second_try sample_env)) =
     articles sample_world @ [row_of_doc (draft\<lparr>d_slug := ''hello-d9cb-1''\<rparr>)]"
proof -
  have p0: "failing_at 0 = sample_env \<or> failing_at 0 = failing_at 0"
    and p1: "failing_at 1 = sample_env \<or> failing_at 1 = failing_at 1"
    and p2: "sample_env = sample_env \<or> sample_env = failing_at 0" by simp_all
  have c0: "second_try (failing_at 0) =
      (fst (second_try (failing_at 0)), snd (second_try (failing_at 0)))" by simp
  note A = post_retries_once[OF hello_again_prepared[OF p0] first_try_lost[unfolded first_try_def]
      suffixed[OF p0, unfolded first_try_def] c0[unfolded second_try_def first_try_def],
      folded first_try_def, folded second_try_def]
  note B = post_retries_once[OF hello_again_prepared[OF p1] first_try_collides(2)[unfolded first_try_def]
      suffixed[OF p1, unfolded first_try_def] second_try_lost[unfolded second_try_def first_try_def],
      folded first_try_def, folded second_try_def]
  note C = post_retries_once[OF hello_again_prepared[OF p2] first_try_collides(1)[unfolded first_try_def]
      suffixed[OF p2, unfolded first_try_def] second_try_stored[unfolded second_try_def first_try_def],
      folded first_try_def, folded second_try_def]
  from A not_recognised_lost
  have a: "post (failing_at 0) (Some bob) hello_again sample_world =
     (Inl (StoreError lost), snd (first_try (failing_at 0)))"
    "issued (snd (first_try (failing_at 0))) =
     issued sample_world @ [InsertArticle (row_of_doc (draft\<lparr>d_slug := ''hello''\<rparr>))]"
    by blast+
  from B recognised_pg
  have b: "post (failing_at 1) (Some bob) hello_again sample_world =
     (Inl (StoreError lost), snd (second_try (failing_at 1)))"
    "issued (snd (second_try (failing_at 1))) =
     issued sample_world @
       [InsertArticle (row_of_doc (draft\<lparr>d_slug := ''hello''\<rparr>)),
        InsertArticle (row_of_doc (draft\<lparr>d_slug := ''hello-d9cb-1''\<rparr>))]"
    by blast+
  from C recognised_pg
  have c: "post sample_env (Some bob) hello_again sample_world =
     (Inr (OneArticle
        (obj_of_doc (draft\<lparr>d_slug := ''hello-d9cb-1''\<rparr>) False (AuthorObj (picked_author bob)))),
      snd (second_try sample_env))"
    "articles (snd (second_try sample_env)) =
     articles sample_world @ [row_of_doc (draft\<lparr>d_slug := ''hello-d9cb-1''\<rparr>)]"
    by blast+
  have d: "fst (first_try (failing_at 1)) = Some (violation Postgres)"
    using first_try_collides(2) by (metis fst_conv)
  from a b c d show ?thesis by blast
qed




lemmas tag_defs =
  sample_defs sample_schema_def decimal.simps digit_char_def tagged_def fresh_def
  new_pair_def stored_def uuid_def counted_def failing_at_def lost_def row_of_doc_def
  issue_def write_with_retry_def violation_recognised





lemma bob_posts_stored: "\<not> isl (fst bob_posts)"
  by (simp add: bob_posts_def post_def store_tags_def tags_named_def tag_defs Let_def
      del: set_filter set_map)



subsection \<open>The author of a response\<close>

lemma load_ParamsAuthor:
  "load slug user flds w = Inr c \<Longrightarrow> o_author (params_article c) = ParamsAuthor"
  by (auto simp: load_def article_of_row_def split: if_splits option.splits)

lemma respond_hides:
  assumes "ctx_body c0 = Some (OneArticle x)" "o_author x = ParamsAuthor"
  shows "\<exists>b. respond (delete_author_id c0) = Some b \<and> all_hide_id b"
  using assms by (simp add: respond_def delete_author_id_def settle_def hides_id_def)

lemma getOne_body:
  "getOne e c w = (Inr c0, w') \<Longrightarrow> ctx_body c0 = Some (OneArticle (params_article c))"
  by (auto simp: getOne_def)

lemma favorite_post_body:
  "favorite_post e c w = (Inr c0, w') \<Longrightarrow>
     \<exists>x. ctx_body c0 = Some (OneArticle x) \<and> o_author x = o_author (params_article c)"
  by (cases "o_favorited (params_article c)")
     (auto simp: favorite_post_noop dest: favorite_post_fresh)

lemma favorite_del_body:
  "favorite_del e c w = (Inr c0, w') \<Longrightarrow>
     \<exists>x. ctx_body c0 = Some (OneArticle x) \<and> o_author x = o_author (params_article c)"
  by (cases "o_favorited (params_article c)")
     (auto simp: favorite_del_noop dest: favorite_del_fresh)

lemma put_body:
  assumes "put e c w = (Inr c0, w')"
  shows "\<exists>x. ctx_body c0 = Some (OneArticle x) \<and> o_author x = ParamsAuthor"
proof -
  from assms have "\<exists>n f. c0 = c\<lparr>ctx_body := Some (OneArticle (obj_of_doc n f ParamsAuthor))\<rparr>"
    by (simp add: put_def Let_def split: option.splits if_splits sum.splits prod.splits) blast+
  then show ?thesis by (auto simp: obj_of_doc_def)
qed

lemma post_body:
  assumes "post e user flds w = (Inr b, w')"
  shows "all_hide_id b"
proof -
  from assms have "\<exists>a u. b = OneArticle (obj_of_doc a False (AuthorObj (picked_author u)))"
    by (simp add: post_def Let_def split: option.splits if_splits sum.splits prod.splits) blast+
  then show ?thesis by (auto simp: obj_of_doc_def hides_id_def picked_author_def)
qed

lemma map_throwing_all:
  "map_throwing f ns = Inr xs \<Longrightarrow> (\<And>n x. f n = Inr x \<Longrightarrow> P x) \<Longrightarrow> list_all P xs"
  by (induction ns arbitrary: xs) (auto split: sum.splits)

lemma shape_hides: "shape fol n = Inr x \<Longrightarrow> hides_id x"
  by (auto simp: shape_def hides_id_def split: option.splits)

lemma shapes_hide: "map_throwing (shape fol) ns = Inr xs \<Longrightarrow> list_all hides_id xs"
  by (erule map_throwing_all) (rule shape_hides)

lemma get_body: "get e user q w = (Inr b, w') \<Longrightarrow> all_hide_id b"
  by (auto simp: get_def split: sum.splits dest: shapes_hide)

lemma feed_get_body: "feed_get e user off lim w = (Inr b, w') \<Longrightarrow> all_hide_id b"
  by (auto simp: feed_get_def Let_def split: sum.splits option.splits dest: shapes_hide)

text \<open>
  C8. In the response of every operation that returns articles (the article by its slug,
  the update, favorite and unfavorite behind \<^verbatim>\<open>bySlug\<close>, the create, the list and the
  feed), the author of each article is an object with no \<^verbatim>\<open>id\<close>.
\<close>

theorem author_id_hidden:
  "(bySlug getOne e slug user flds w = (Inr c1, w1) \<longrightarrow>
      (\<exists>b. respond c1 = Some b \<and> all_hide_id b)) \<and>
   (bySlug put e slug user flds w = (Inr c2, w2) \<longrightarrow>
      (\<exists>b. respond c2 = Some b \<and> all_hide_id b)) \<and>
   (bySlug favorite_post e slug user flds w = (Inr c3, w3) \<longrightarrow>
      (\<exists>b. respond c3 = Some b \<and> all_hide_id b)) \<and>
   (bySlug favorite_del e slug user flds w = (Inr c4, w4) \<longrightarrow>
      (\<exists>b. respond c4 = Some b \<and> all_hide_id b)) \<and>
   (post e user flds w = (Inr b5, w5) \<longrightarrow> all_hide_id b5) \<and>
   (get e user q w = (Inr b6, w6) \<longrightarrow> all_hide_id b6) \<and>
   (feed_get e user off lim w = (Inr b7, w7) \<longrightarrow> all_hide_id b7)"
proof (intro conjI impI)
  assume "bySlug getOne e slug user flds w = (Inr c1, w1)"
  from bySlug_Inr[OF this] obtain c c0 where
    "load slug user flds w = Inr c" "getOne e c w = (Inr c0, w1)" "c1 = delete_author_id c0"
    by blast
  with load_ParamsAuthor getOne_body respond_hides
  show "\<exists>b. respond c1 = Some b \<and> all_hide_id b" by metis
next
  assume "bySlug put e slug user flds w = (Inr c2, w2)"
  from bySlug_Inr[OF this] obtain c c0 where
    "load slug user flds w = Inr c" "put e c w = (Inr c0, w2)" "c2 = delete_author_id c0"
    by blast
  with put_body respond_hides
  show "\<exists>b. respond c2 = Some b \<and> all_hide_id b" by metis
next
  assume "bySlug favorite_post e slug user flds w = (Inr c3, w3)"
  from bySlug_Inr[OF this] obtain c c0 where
    "load slug user flds w = Inr c" "favorite_post e c w = (Inr c0, w3)" "c3 = delete_author_id c0"
    by blast
  with load_ParamsAuthor favorite_post_body respond_hides
  show "\<exists>b. respond c3 = Some b \<and> all_hide_id b" by metis
next
  assume "bySlug favorite_del e slug user flds w = (Inr c4, w4)"
  from bySlug_Inr[OF this] obtain c c0 where
    "load slug user flds w = Inr c" "favorite_del e c w = (Inr c0, w4)" "c4 = delete_author_id c0"
    by blast
  with load_ParamsAuthor favorite_del_body respond_hides
  show "\<exists>b. respond c4 = Some b \<and> all_hide_id b" by metis
next
  assume "post e user flds w = (Inr b5, w5)"
  then show "all_hide_id b5" by (rule post_body)
next
  assume "get e user q w = (Inr b6, w6)"
  then show "all_hide_id b6" by (rule get_body)
next
  assume "feed_get e user off lim w = (Inr b7, w7)"
  then show "all_hide_id b7" by (rule feed_get_body)
qed

lemmas list_defs =
  get_def feed_get_def followedIds_def articlesQuery_def page_def list_rows_of_def
  feed_rows_of_def join_author_def join_relation_def join_tag_def join_favorite_def
  join_follower_def matches_def viewer_ids_def selected_def materialize_def first_row_def
  next_row_def or_marker_def shape_def Boolean_def article_of_row_def countQuery_def
  count_result_def articlesCount_def js_or_def decimal.simps digit_char_def digit_val_def
  everything_def

lemma bob_reads_ok: "\<not> isl (fst bob_reads)"
  by (simp add: bob_reads_def bySlug_def getOne_def load_defs sample_defs)

lemma bob_lists_ok: "\<not> isl (fst bob_lists)"
  by (simp add: bob_lists_def list_defs sample_defs del: set_filter set_map)

lemma bob_feed_ok: "\<not> isl (fst bob_feed)"
  by (simp add: bob_feed_def list_defs sample_defs Let_def del: set_filter set_map)

lemma alice_retitles_ok: "\<not> isl (fst alice_retitles)"
    by (simp add: alice_retitles_def bySlug_def load_defs sample_defs put_defs Let_def
        del: set_filter set_map)

lemma alice_favorites_ok: "\<not> isl (fst alice_favorites)"
    by (simp add: alice_favorites_def bySlug_def load_defs sample_defs favorite_post_def
        uuid_def issue_def Let_def)

lemma bob_unfavorites_ok: "\<not> isl (fst bob_unfavorites)"
    by (simp add: bob_unfavorites_def bySlug_def load_defs sample_defs favorite_del_def
        issue_def Let_def)

theorem author_id_hidden_witness:
  "\<not> isl (fst bob_reads) \<and> \<not> isl (fst alice_retitles) \<and> \<not> isl (fst alice_favorites) \<and>
   \<not> isl (fst bob_unfavorites) \<and> \<not> isl (fst bob_posts) \<and> \<not> isl (fst bob_lists) \<and>
   \<not> isl (fst bob_feed) \<and>
   (\<exists>b. respond (projr (fst bob_reads)) = Some b \<and> all_hide_id b) \<and>
   (\<exists>b. respond (projr (fst alice_retitles)) = Some b \<and> all_hide_id b) \<and>
   (\<exists>b. respond (projr (fst alice_favorites)) = Some b \<and> all_hide_id b) \<and>
   (\<exists>b. respond (projr (fst bob_unfavorites)) = Some b \<and> all_hide_id b) \<and>
   all_hide_id (projr (fst bob_posts)) \<and>
   all_hide_id (projr (fst bob_lists)) \<and>
   all_hide_id (projr (fst bob_feed))"
proof -
  note t = author_id_hidden[where e = sample_env and w = sample_world]
  from t[where slug = "''hello''" and user = "Some bob" and flds = no_fields]
    pair_Inr[OF bob_reads_ok, unfolded bob_reads_def]
  have 1: "\<exists>b. respond (projr (fst bob_reads)) = Some b \<and> all_hide_id b"
    unfolding bob_reads_def by blast
  from t[where slug = "''hello''" and user = "Some alice"
      and flds = "no_fields\<lparr>af_title := Some ''salve''\<rparr>"]
    pair_Inr[OF alice_retitles_ok, unfolded alice_retitles_def]
  have 2: "\<exists>b. respond (projr (fst alice_retitles)) = Some b \<and> all_hide_id b"
    unfolding alice_retitles_def by blast
  from t[where slug = "''hello''" and user = "Some alice" and flds = no_fields]
    pair_Inr[OF alice_favorites_ok, unfolded alice_favorites_def]
  have 3: "\<exists>b. respond (projr (fst alice_favorites)) = Some b \<and> all_hide_id b"
    unfolding alice_favorites_def by blast
  from t[where slug = "''hello''" and user = "Some bob" and flds = no_fields]
    pair_Inr[OF bob_unfavorites_ok, unfolded bob_unfavorites_def]
  have 4: "\<exists>b. respond (projr (fst bob_unfavorites)) = Some b \<and> all_hide_id b"
    unfolding bob_unfavorites_def by blast
  from t[where user = "Some bob" and flds = tagged]
    pair_Inr[OF bob_posts_stored, unfolded bob_posts_def]
  have 5: "all_hide_id (projr (fst bob_posts))"
    unfolding bob_posts_def by blast
  from t[where user = "Some bob" and q = everything]
    pair_Inr[OF bob_lists_ok, unfolded bob_lists_def]
  have 6: "all_hide_id (projr (fst bob_lists))"
    unfolding bob_lists_def by blast
  from t[where user = "Some bob" and off = 0 and lim = 20]
    pair_Inr[OF bob_feed_ok, unfolded bob_feed_def]
  have 7: "all_hide_id (projr (fst bob_feed))"
    unfolding bob_feed_def by blast
  from 1 2 3 4 5 6 7 bob_reads_ok alice_retitles_ok alice_favorites_ok bob_unfavorites_ok
    bob_posts_stored bob_lists_ok bob_feed_ok
  show ?thesis by blast
qed

subsection \<open>The count of a list\<close>


















subsection \<open>The flags of the viewer\<close>




























































end
